theory Spec2Isabelle
  imports Main "HOL-Library.Word"
begin

section \<open>The Config struct, as reflection sees it\<close>

text \<open>
  \<^verbatim>\<open>LoadEnvironmentVariables\<close> reaches the struct only through \<^verbatim>\<open>reflect\<close>:
  \<^verbatim>\<open>t.NumField()\<close>, \<^verbatim>\<open>t.Field(i)\<close> (name, type and tag of the i-th field) and
  \<^verbatim>\<open>v.Field(i)\<close> (its value). The struct type is therefore modelled by the
  enumeration of its fields in declaration order together with the three attributes
  the code reads, and a struct value by the value of each field.

  The unexported field \<^verbatim>\<open>dir\<close> is written \<open>priv_dir\<close>.
\<close>

datatype StructField =
    priv_dir
  | Version | Endpoint
  | Echo
  | Gamemodes | Filterscripts | Plugins | RCONPassword | Port | Hostname | MaxPlayers
  | Language | Mapname | Weburl | GamemodeText
  | Bind | Password | Announce | LANMode | Query | RCON | LogQueries | Sleep | MaxNPC
  | StreamRate | StreamDistance | OnFootRate | InCarRate | WeaponRate | ChatLogging
  | Timestamp | NoSign | LogTimeFormat | MessageHoleLimit | MessagesLimit | AcksLimit
  | PlayerTimeout | MinConnectionTime | LagCompmode | ConnseedTime | DBLogging
  | DBLogQueries | ConnectCookies | CookieLogging | Output

text \<open>The fields in declaration order: what \<^verbatim>\<open>for i := 0; i < t.NumField(); i++\<close> visits.\<close>

definition Config_fields :: "StructField list" where
  "Config_fields =
    [priv_dir, Version, Endpoint, Echo, Gamemodes, Filterscripts, Plugins, RCONPassword,
     Port, Hostname, MaxPlayers, Language, Mapname, Weburl, GamemodeText, Bind, Password,
     Announce, LANMode, Query, RCON, LogQueries, Sleep, MaxNPC, StreamRate, StreamDistance,
     OnFootRate, InCarRate, WeaponRate, ChatLogging, Timestamp, NoSign, LogTimeFormat,
     MessageHoleLimit, MessagesLimit, AcksLimit, PlayerTimeout, MinConnectionTime,
     LagCompmode, ConnseedTime, DBLogging, DBLogQueries, ConnectCookies, CookieLogging,
     Output]"

text \<open>
  Go types that occur. \<open>PtrFloat64\<close> is not the type of any field, but it is the type of
  the pointer that \<^verbatim>\<open>reflect.New(reflect.ValueOf(valueAsFloat).Type())\<close> makes.
  \<^verbatim>\<open>Plugin\<close> is a named type of package \<^verbatim>\<open>runtime\<close> declared in another file.
\<close>

datatype gotype =
  PtrString | PtrInt | PtrBool | PtrFloat32 | PtrFloat64 | SliceString | SlicePlugin

text \<open>\<^verbatim>\<open>Type.String()\<close>: a named type is printed with its package name.\<close>

primrec type_String :: "gotype \<Rightarrow> string" where
  "type_String PtrString = ''*string''"
| "type_String PtrInt = ''*int''"
| "type_String PtrBool = ''*bool''"
| "type_String PtrFloat32 = ''*float32''"
| "type_String PtrFloat64 = ''*float64''"
| "type_String SliceString = ''[]string''"
| "type_String SlicePlugin = ''[]runtime.Plugin''"

primrec field_Type :: "StructField \<Rightarrow> gotype" where
  "field_Type priv_dir = PtrString"
| "field_Type Version = PtrString"
| "field_Type Endpoint = PtrString"
| "field_Type Echo = PtrString"
| "field_Type Gamemodes = SliceString"
| "field_Type Filterscripts = SliceString"
| "field_Type Plugins = SlicePlugin"
| "field_Type RCONPassword = PtrString"
| "field_Type Port = PtrInt"
| "field_Type Hostname = PtrString"
| "field_Type MaxPlayers = PtrInt"
| "field_Type Language = PtrString"
| "field_Type Mapname = PtrString"
| "field_Type Weburl = PtrString"
| "field_Type GamemodeText = PtrString"
| "field_Type Bind = PtrString"
| "field_Type Password = PtrString"
| "field_Type Announce = PtrBool"
| "field_Type LANMode = PtrBool"
| "field_Type Query = PtrBool"
| "field_Type RCON = PtrBool"
| "field_Type LogQueries = PtrBool"
| "field_Type Sleep = PtrInt"
| "field_Type MaxNPC = PtrInt"
| "field_Type StreamRate = PtrInt"
| "field_Type StreamDistance = PtrFloat32"
| "field_Type OnFootRate = PtrInt"
| "field_Type InCarRate = PtrInt"
| "field_Type WeaponRate = PtrInt"
| "field_Type ChatLogging = PtrBool"
| "field_Type Timestamp = PtrBool"
| "field_Type NoSign = PtrString"
| "field_Type LogTimeFormat = PtrString"
| "field_Type MessageHoleLimit = PtrInt"
| "field_Type MessagesLimit = PtrInt"
| "field_Type AcksLimit = PtrInt"
| "field_Type PlayerTimeout = PtrInt"
| "field_Type MinConnectionTime = PtrInt"
| "field_Type LagCompmode = PtrInt"
| "field_Type ConnseedTime = PtrInt"
| "field_Type DBLogging = PtrBool"
| "field_Type DBLogQueries = PtrBool"
| "field_Type ConnectCookies = PtrBool"
| "field_Type CookieLogging = PtrBool"
| "field_Type Output = PtrBool"

text \<open>\<^verbatim>\<open>Tag.Get("json")\<close>: the value of the json key of the struct tag, empty when there is none.\<close>

primrec Tag_Get_json :: "StructField \<Rightarrow> string" where
  "Tag_Get_json priv_dir = []"
| "Tag_Get_json Version = ''version,omitempty''"
| "Tag_Get_json Endpoint = ''endpoint,omitempty''"
| "Tag_Get_json Echo = ''echo,omitempty''"
| "Tag_Get_json Gamemodes = ''gamemodes,omitempty''"
| "Tag_Get_json Filterscripts = ''filterscripts,omitempty''"
| "Tag_Get_json Plugins = ''plugins,omitempty''"
| "Tag_Get_json RCONPassword = ''rcon_password,omitempty''"
| "Tag_Get_json Port = ''port''"
| "Tag_Get_json Hostname = ''hostname,omitempty''"
| "Tag_Get_json MaxPlayers = ''maxplayers''"
| "Tag_Get_json Language = ''language,omitempty''"
| "Tag_Get_json Mapname = ''mapname,omitempty''"
| "Tag_Get_json Weburl = ''weburl,omitempty''"
| "Tag_Get_json GamemodeText = ''gamemodetext,omitempty''"
| "Tag_Get_json Bind = ''bind,omitempty''"
| "Tag_Get_json Password = ''password,omitempty''"
| "Tag_Get_json Announce = ''announce,omitempty''"
| "Tag_Get_json LANMode = ''lanmode,omitempty''"
| "Tag_Get_json Query = ''query,omitempty''"
| "Tag_Get_json RCON = ''rcon,omitempty''"
| "Tag_Get_json LogQueries = ''logqueries,omitempty''"
| "Tag_Get_json Sleep = ''sleep,omitempty''"
| "Tag_Get_json MaxNPC = ''maxnpc,omitempty''"
| "Tag_Get_json StreamRate = ''stream_rate,omitempty''"
| "Tag_Get_json StreamDistance = ''stream_distance,omitempty''"
| "Tag_Get_json OnFootRate = ''onfoot_rate,omitempty''"
| "Tag_Get_json InCarRate = ''incar_rate,omitempty''"
| "Tag_Get_json WeaponRate = ''weapon_rate,omitempty''"
| "Tag_Get_json ChatLogging = ''chatlogging,omitempty''"
| "Tag_Get_json Timestamp = ''timestamp,omitempty''"
| "Tag_Get_json NoSign = ''nosign,omitempty''"
| "Tag_Get_json LogTimeFormat = ''logtimeformat,omitempty''"
| "Tag_Get_json MessageHoleLimit = ''messageholelimit,omitempty''"
| "Tag_Get_json MessagesLimit = ''messageslimit,omitempty''"
| "Tag_Get_json AcksLimit = ''ackslimit,omitempty''"
| "Tag_Get_json PlayerTimeout = ''playertimeout,omitempty''"
| "Tag_Get_json MinConnectionTime = ''minconnectiontime,omitempty''"
| "Tag_Get_json LagCompmode = ''lagcompmode,omitempty''"
| "Tag_Get_json ConnseedTime = ''connseedtime,omitempty''"
| "Tag_Get_json DBLogging = ''db_logging,omitempty''"
| "Tag_Get_json DBLogQueries = ''db_log_queries,omitempty''"
| "Tag_Get_json ConnectCookies = ''conncookies,omitempty''"
| "Tag_Get_json CookieLogging = ''cookielogging,omitempty''"
| "Tag_Get_json Output = ''output,omitempty''"

text \<open>
  \<^verbatim>\<open>v.Field(i).CanSet()\<close> on an addressable struct: true exactly for the exported
  fields, whose names start with an upper-case letter. Only \<^verbatim>\<open>dir\<close> is unexported.
\<close>

definition CanSet :: "StructField \<Rightarrow> bool" where
  "CanSet f = (f \<noteq> priv_dir)"


section \<open>Values\<close>

text \<open>
  A \<^verbatim>\<open>float64\<close> and a \<^verbatim>\<open>float32\<close> are their IEEE 754 bit patterns; the two
  operations on them that the code uses, \<^verbatim>\<open>strconv.ParseFloat\<close> and the conversion
  \<^verbatim>\<open>float32(x)\<close>, are taken from outside (see \<open>world\<close> below). An \<^verbatim>\<open>int\<close> is a
  mathematical integer; \<^verbatim>\<open>strconv.Atoi\<close> only produces values of the 64-bit range.
  A nil slice and an empty slice are both \<open>[]\<close>.
\<close>

typedecl Plugin

type_synonym float64 = "64 word"
type_synonym float32 = "32 word"

datatype Value =
    String_ptr "string option"
  | Int_ptr "int option"
  | Bool_ptr "bool option"
  | Float32_ptr "float32 option"
  | Float64_ptr "float64 option"
  | String_slice "string list"
  | Plugin_slice "Plugin list"

primrec Value_Type :: "Value \<Rightarrow> gotype" where
  "Value_Type (String_ptr p) = PtrString"
| "Value_Type (Int_ptr p) = PtrInt"
| "Value_Type (Bool_ptr p) = PtrBool"
| "Value_Type (Float32_ptr p) = PtrFloat32"
| "Value_Type (Float64_ptr p) = PtrFloat64"
| "Value_Type (String_slice xs) = SliceString"
| "Value_Type (Plugin_slice xs) = SlicePlugin"

primrec IsNil :: "Value \<Rightarrow> bool" where
  "IsNil (String_ptr p) = (p = None)"
| "IsNil (Int_ptr p) = (p = None)"
| "IsNil (Bool_ptr p) = (p = None)"
| "IsNil (Float32_ptr p) = (p = None)"
| "IsNil (Float64_ptr p) = (p = None)"
| "IsNil (String_slice xs) = (xs = [])"
| "IsNil (Plugin_slice xs) = (xs = [])"

type_synonym Config = "StructField \<Rightarrow> Value"

text \<open>The zero value \<^verbatim>\<open>var cfg Config\<close>: every pointer and every slice nil.\<close>

primrec zero_Value :: "gotype \<Rightarrow> Value" where
  "zero_Value PtrString = String_ptr None"
| "zero_Value PtrInt = Int_ptr None"
| "zero_Value PtrBool = Bool_ptr None"
| "zero_Value PtrFloat32 = Float32_ptr None"
| "zero_Value PtrFloat64 = Float64_ptr None"
| "zero_Value SliceString = String_slice []"
| "zero_Value SlicePlugin = Plugin_slice []"

definition zero_Config :: Config where
  "zero_Config = (\<lambda>f. zero_Value (field_Type f))"

text \<open>A struct value of type \<^verbatim>\<open>Config\<close> holds in each field a value of the field's type.\<close>

definition well_typed :: "Config \<Rightarrow> bool" where
  "well_typed c = list_all (\<lambda>f. Value_Type (c f) = field_Type f) Config_fields"

section \<open>What the code takes from outside\<close>

datatype NumError = ErrSyntax | ErrRange

text \<open>
  The process environment, the file system, the two decoders and the float parser.
  \<open>Exists\<close> is \<^verbatim>\<open>util.Exists\<close>, a function of another package of the repository,
  taken as it is; \<open>Join\<close> is \<^verbatim>\<open>filepath.Join\<close>; \<open>ReadFile\<close> gives the error
  message (\<open>Inl\<close>) or the contents; the decoders fill a struct in place and may fail
  with a message, like \<^verbatim>\<open>json.Unmarshal(contents, &cfg)\<close>.
\<close>

record world =
  LookupEnv :: "string \<Rightarrow> string option"
  ParseFloat :: "string \<Rightarrow> NumError + float64"
  float32_of :: "float64 \<Rightarrow> float32"
  Join :: "string \<Rightarrow> string \<Rightarrow> string"
  Exists :: "string \<Rightarrow> bool"
  ReadFile :: "string \<Rightarrow> string + string"
  json_Unmarshal :: "string \<Rightarrow> Config \<Rightarrow> Config \<times> string option"
  yaml_Unmarshal :: "string \<Rightarrow> Config \<Rightarrow> Config \<times> string option"

section \<open>strings and strconv\<close>

text \<open>\<^verbatim>\<open>strings.ToUpper\<close> on ASCII text (every json tag of the struct is ASCII).\<close>

definition upper_byte :: "char \<Rightarrow> char" where
  "upper_byte c =
     (case map_of (zip ''abcdefghijklmnopqrstuvwxyz'' ''ABCDEFGHIJKLMNOPQRSTUVWXYZ'') c of
        Some u \<Rightarrow> u
      | None \<Rightarrow> c)"

definition ToUpper :: "string \<Rightarrow> string" where
  "ToUpper s = map upper_byte s"

text \<open>\<^verbatim>\<open>strings.Split(s, sep)\<close> for a separator of one byte.\<close>

fun Split :: "string \<Rightarrow> char \<Rightarrow> string list" where
  "Split [] sep = [] # []"
| "Split (c # cs) sep =
     (if c = sep then [] # Split cs sep
      else (case Split cs sep of [] \<Rightarrow> [c] # [] | x # xs \<Rightarrow> (c # x) # xs))"

text \<open>
  \<^verbatim>\<open>strconv.ParseBool\<close>: twelve spellings are accepted, anything else gives
  \<^verbatim>\<open>false\<close> together with a syntax error.
\<close>

definition ParseBool :: "string \<Rightarrow> bool \<times> NumError option" where
  "ParseBool str =
     (if str \<in> set [''1'', ''t'', ''T'', ''TRUE'', ''true'', ''True''] then (True, None)
      else if str \<in> set [''0'', ''f'', ''F'', ''FALSE'', ''false'', ''False''] then (False, None)
      else (False, Some ErrSyntax))"

text \<open>
  \<^verbatim>\<open>strconv.Atoi\<close>: an optional sign, then one or more decimal digits, within the range
  of a 64-bit \<^verbatim>\<open>int\<close>.
\<close>

definition is_digit :: "char \<Rightarrow> bool" where
  "is_digit c = (48 \<le> (of_char c :: nat) \<and> (of_char c :: nat) \<le> 57)"

fun decimal :: "nat \<Rightarrow> string \<Rightarrow> nat" where
  "decimal acc [] = acc"
| "decimal acc (c # cs) = decimal (acc * 10 + ((of_char c :: nat) - 48)) cs"

definition Atoi :: "string \<Rightarrow> NumError + int" where
  "Atoi s =
     (let neg = (case s of [] \<Rightarrow> False | c # _ \<Rightarrow> c = CHR ''-'');
          ds = (case s of [] \<Rightarrow> []
                | c # cs \<Rightarrow> if c = CHR ''-'' \<or> c = CHR ''+'' then cs else s)
      in if ds = [] then Inl ErrSyntax
         else if list_all is_digit ds then
           (let n = (if neg then - int (decimal 0 ds) else int (decimal 0 ds))
            in if - (2 ^ 63) \<le> n \<and> n \<le> 2 ^ 63 - 1 then Inr n else Inl ErrRange)
         else Inl ErrSyntax)"

section \<open>reflect: allocation and assignment\<close>

datatype panic =
    unknown_kind string
  | index_out_of_range
  | Set_not_assignable gotype gotype
  | Set_wrong_kind

datatype event =
    Println string
  | Printf_warning StructField string string NumError

record state =
  cfg :: Config
  stdout :: "event list"

type_synonym outcome = "state \<times> panic option"

text \<open>Sequencing: a panic stops the function, with the struct as it is at that point.\<close>

definition seq :: "outcome \<Rightarrow> (state \<Rightarrow> outcome) \<Rightarrow> outcome" where
  "seq r k = (case r of (s, Some p) \<Rightarrow> (s, Some p) | (s, None) \<Rightarrow> k s)"

text \<open>
  \<^verbatim>\<open>reflect.New(reflect.ValueOf(x).Type())\<close>: a pointer to a new zero value of the
  type of \<open>x\<close>, given here by the pointer type.
\<close>

primrec reflect_New :: "gotype \<Rightarrow> Value" where
  "reflect_New PtrString = String_ptr (Some [])"
| "reflect_New PtrInt = Int_ptr (Some 0)"
| "reflect_New PtrBool = Bool_ptr (Some False)"
| "reflect_New PtrFloat32 = Float32_ptr (Some 0)"
| "reflect_New PtrFloat64 = Float64_ptr (Some 0)"
| "reflect_New SliceString = String_slice []"
| "reflect_New SlicePlugin = Plugin_slice []"

text \<open>
  \<^verbatim>\<open>fieldval.Set(x)\<close>: the value must be assignable to the field's type, else
  \<^verbatim>\<open>reflect.Set: value of type X is not assignable to type Y\<close>.
\<close>

definition Value_Set :: "StructField \<Rightarrow> Value \<Rightarrow> state \<Rightarrow> outcome" where
  "Value_Set f x s =
     (if Value_Type x = field_Type f then (s\<lparr>cfg := (cfg s)(f := x)\<rparr>, None)
      else (s, Some (Set_not_assignable (Value_Type x) (field_Type f))))"

text \<open>
  \<^verbatim>\<open>fieldval.Elem().SetString(x)\<close> and its siblings write through the pointer; on a
  nil pointer or a pointer to another kind they panic. \<^verbatim>\<open>SetFloat\<close> on a
  \<^verbatim>\<open>float32\<close> stores \<^verbatim>\<open>float32(x)\<close>.
\<close>

definition Elem_SetString :: "StructField \<Rightarrow> string \<Rightarrow> state \<Rightarrow> outcome" where
  "Elem_SetString f x s =
     (case cfg s f of
        String_ptr (Some _) \<Rightarrow> (s\<lparr>cfg := (cfg s)(f := String_ptr (Some x))\<rparr>, None)
      | _ \<Rightarrow> (s, Some Set_wrong_kind))"

definition Elem_SetBool :: "StructField \<Rightarrow> bool \<Rightarrow> state \<Rightarrow> outcome" where
  "Elem_SetBool f x s =
     (case cfg s f of
        Bool_ptr (Some _) \<Rightarrow> (s\<lparr>cfg := (cfg s)(f := Bool_ptr (Some x))\<rparr>, None)
      | _ \<Rightarrow> (s, Some Set_wrong_kind))"

definition Elem_SetInt :: "StructField \<Rightarrow> int \<Rightarrow> state \<Rightarrow> outcome" where
  "Elem_SetInt f x s =
     (case cfg s f of
        Int_ptr (Some _) \<Rightarrow> (s\<lparr>cfg := (cfg s)(f := Int_ptr (Some x))\<rparr>, None)
      | _ \<Rightarrow> (s, Some Set_wrong_kind))"

definition Elem_SetFloat :: "world \<Rightarrow> StructField \<Rightarrow> float64 \<Rightarrow> state \<Rightarrow> outcome" where
  "Elem_SetFloat w f x s =
     (case cfg s f of
        Float32_ptr (Some _) \<Rightarrow>
          (s\<lparr>cfg := (cfg s)(f := Float32_ptr (Some (float32_of w x)))\<rparr>, None)
      | Float64_ptr (Some _) \<Rightarrow> (s\<lparr>cfg := (cfg s)(f := Float64_ptr (Some x))\<rparr>, None)
      | _ \<Rightarrow> (s, Some Set_wrong_kind))"

definition print :: "event \<Rightarrow> state \<Rightarrow> state" where
  "print e s = s\<lparr>stdout := stdout s @ [e]\<rparr>"


section \<open>LoadEnvironmentVariables\<close>

text \<open>
  The name of the environment variable of a field:
  \<^verbatim>\<open>"SAMP_" + strings.ToUpper(strings.Split(t.Field(i).Tag.Get("json"), ",")[0])\<close>.
  Indexing an empty slice would panic.
\<close>

definition env_name :: "StructField \<Rightarrow> panic + string" where
  "env_name f =
     (case Split (Tag_Get_json f) (CHR '','') of
        [] \<Rightarrow> Inl index_out_of_range
      | x # _ \<Rightarrow> Inr (''SAMP_'' @ ToUpper x))"

text \<open>
  \<^verbatim>\<open>if fieldval.IsNil() { fieldval.Set(reflect.New(v.Type())) }\<close>, where \<open>t\<close> is the
  type of a pointer to \<open>v\<close>.
\<close>

definition alloc_if_nil :: "StructField \<Rightarrow> gotype \<Rightarrow> state \<Rightarrow> outcome" where
  "alloc_if_nil f t s =
     (if IsNil (cfg s f) then Value_Set f (reflect_New t) s else (s, None))"

text \<open>The body of the loop, for one field. \<open>(s, None)\<close> is \<^verbatim>\<open>continue\<close>.\<close>

definition field_body :: "world \<Rightarrow> StructField \<Rightarrow> state \<Rightarrow> outcome" where
  "field_body w f s =
     (if \<not> CanSet f then (s, None)
      else case env_name f of
        Inl p \<Rightarrow> (s, Some p)
      | Inr name \<Rightarrow>
         (case LookupEnv w name of
            None \<Rightarrow> (s, None)
          | Some val \<Rightarrow>
             (let ty = type_String (field_Type f) in
              if ty = ''*string'' then
                seq (alloc_if_nil f PtrString s) (Elem_SetString f val)
              else if ty = ''[]string'' then
                (print (Println ''cannot set gamemode via environment variables yet'') s, None)
              else if ty = ''*bool'' then
                (case ParseBool val of
                   (valueAsBool, err) \<Rightarrow>
                     (let s1 = (case err of
                                  None \<Rightarrow> s
                                | Some e \<Rightarrow> print (Printf_warning f val ''boolean'' e) s)
                      in seq (alloc_if_nil f PtrBool s1) (Elem_SetBool f valueAsBool)))
              else if ty = ''*int'' then
                (case Atoi val of
                   Inl e \<Rightarrow> (print (Printf_warning f val ''integer'' e) s, None)
                 | Inr valueAsInt \<Rightarrow>
                     seq (alloc_if_nil f PtrInt s) (Elem_SetInt f valueAsInt))
              else if ty = ''*float32'' then
                (case ParseFloat w val of
                   Inl e \<Rightarrow> (print (Printf_warning f val ''float'' e) s, None)
                 | Inr valueAsFloat \<Rightarrow>
                     seq (alloc_if_nil f PtrFloat64 s) (Elem_SetFloat w f valueAsFloat))
              else (s, Some (unknown_kind ty)))))"

fun fields_loop :: "world \<Rightarrow> StructField list \<Rightarrow> state \<Rightarrow> outcome" where
  "fields_loop w [] s = (s, None)"
| "fields_loop w (f # fs) s = seq (field_body w f s) (fields_loop w fs)"

text \<open>
  The result is the struct as the call leaves it, what the call printed, and the panic
  that ended it, if any.
\<close>

definition LoadEnvironmentVariables :: "world \<Rightarrow> Config \<Rightarrow> outcome" where
  "LoadEnvironmentVariables w c = fields_loop w Config_fields \<lparr>cfg = c, stdout = []\<rparr>"

section \<open>Loading from a directory\<close>

text \<open>
  An error is its message; \<^verbatim>\<open>errors.Wrap(err, msg)\<close> has the message
  \<^verbatim>\<open>msg + ": " + err.Error()\<close>. A Go function returning \<^verbatim>\<open>(cfg, err)\<close> returns a
  pair, with \<open>None\<close> for a nil error.
\<close>

definition Wrap :: "string \<Rightarrow> string \<Rightarrow> string" where
  "Wrap err msg = msg @ '': '' @ err"

definition ConfigFromJSON :: "world \<Rightarrow> string \<Rightarrow> Config \<times> string option" where
  "ConfigFromJSON w file =
     (case ReadFile w file of
        Inl err \<Rightarrow> (zero_Config, Some (Wrap err ''failed to read samp.json''))
      | Inr contents \<Rightarrow>
         (case json_Unmarshal w contents zero_Config of
            (c, Some err) \<Rightarrow> (c, Some (Wrap err ''failed to unmarshal samp.json''))
          | (c, None) \<Rightarrow> (c, None)))"

definition ConfigFromYAML :: "world \<Rightarrow> string \<Rightarrow> Config \<times> string option" where
  "ConfigFromYAML w file =
     (case ReadFile w file of
        Inl err \<Rightarrow> (zero_Config, Some (Wrap err ''failed to read samp.json''))
      | Inr contents \<Rightarrow>
         (case yaml_Unmarshal w contents zero_Config of
            (c, Some err) \<Rightarrow> (c, Some (Wrap err ''failed to unmarshal samp.json''))
          | (c, None) \<Rightarrow> (c, None)))"

definition ConfigFromDirectory :: "world \<Rightarrow> string \<Rightarrow> Config \<times> string option" where
  "ConfigFromDirectory w dir =
     (let jsonFile = Join w dir ''samp.json'' in
      if Exists w jsonFile then ConfigFromJSON w jsonFile
      else let yamlFile = Join w dir ''samp.yaml'' in
        if Exists w yamlFile then ConfigFromYAML w yamlFile
        else (zero_Config,
              Some ''directory does not contain a samp.json or samp.yaml file''))"

text \<open>
  \<^verbatim>\<open>NewConfigFromEnvironment\<close>: on an error of the loader it returns at once; otherwise
  it stores the directory and applies the environment. The second component is the
  panic that ended the call, if any; the first is then the struct as the panic left
  it, not a value the caller receives.
\<close>

definition NewConfigFromEnvironment :: "world \<Rightarrow> string \<Rightarrow> (Config \<times> string option) \<times> panic option" where
  "NewConfigFromEnvironment w dir =
     (case ConfigFromDirectory w dir of
        (c, Some err) \<Rightarrow> ((c, Some err), None)
      | (c, None) \<Rightarrow>
          (case LoadEnvironmentVariables w (c(priv_dir := String_ptr (Some dir))) of
             (s, p) \<Rightarrow> ((cfg s, None), p)))"

text \<open>
  The key of a field in the JSON or YAML document, as \<^verbatim>\<open>encoding/json\<close> derives it
  (\<^verbatim>\<open>ghodss/yaml\<close> converts YAML to JSON and uses the same decoder): an unexported
  field and a field tagged \<^verbatim>\<open>-\<close> have none, otherwise it is the name in the tag.
  Every exported field of \<^verbatim>\<open>Config\<close> has a name in its tag.
\<close>

definition json_key :: "StructField \<Rightarrow> string option" where
  "json_key f =
     (if CanSet f then
        (if Tag_Get_json f = ''-'' then None
         else case Split (Tag_Get_json f) (CHR '','') of
                [] \<Rightarrow> None
              | x # _ \<Rightarrow> Some x)
      else None)"

text \<open>\<^verbatim>\<open>strings.Contains\<close>.\<close>

primrec Contains :: "string \<Rightarrow> string \<Rightarrow> bool" where
  "Contains [] substr = (substr = [])"
| "Contains (c # cs) substr = (take (length substr) (c # cs) = substr \<or> Contains cs substr)"


section \<open>An example world\<close>

text \<open>
  A small concrete world on which the theorems below are exercised: an environment and a
  set of files given as maps, a float parser and a conversion that know the literal
  \<^verbatim>\<open>200.5\<close> (as IEEE 754 bit patterns), and decoders that know one document each
  (the JSON document \<^verbatim>\<open>{"port": 7777}\<close> and the YAML document \<^verbatim>\<open>port: 8888\<close>).
\<close>

definition example_json :: string where
  "example_json = ''{'' @ [CHR 0x22] @ ''port'' @ [CHR 0x22] @ '': 7777}''"

definition example_world :: "(string \<Rightarrow> string option) \<Rightarrow> (string \<Rightarrow> string option) \<Rightarrow> world" where
  "example_world env files =
     \<lparr>LookupEnv = env,
      ParseFloat = (\<lambda>s. if s = ''200.5'' then Inr 0x4069100000000000 else Inl ErrSyntax),
      float32_of = (\<lambda>x. if x = 0x4069100000000000 then 0x43488000 else 0),
      Join = (\<lambda>d f. d @ ''/'' @ f),
      Exists = (\<lambda>p. files p \<noteq> None),
      ReadFile = (\<lambda>p. case files p of
                         None \<Rightarrow> Inl (''open '' @ p @ '': no such file or directory'')
                       | Some b \<Rightarrow> Inr b),
      json_Unmarshal = (\<lambda>b c. if b = example_json
                          then (c(Port := Int_ptr (Some 7777)), None)
                          else (c, Some ''unexpected end of JSON input'')),
      yaml_Unmarshal = (\<lambda>b c. if b = ''port: 8888''
                          then (c(Port := Int_ptr (Some 8888)), None)
                          else (c, Some ''yaml: did not find expected key''))\<rparr>"

text \<open>An environment with one unparsable value for a field of each parsed type.\<close>

definition unparsable_env :: "string \<Rightarrow> string option" where
  "unparsable_env =
     [''SAMP_ANNOUNCE'' \<mapsto> ''yes'', ''SAMP_MAXPLAYERS'' \<mapsto> ''notanumber'',
      ''SAMP_STREAM_DISTANCE'' \<mapsto> ''far'']"

text \<open>A directory holding \<^verbatim>\<open>samp.json\<close> with port 7777, and one holding a \<^verbatim>\<open>samp.yaml\<close> too.\<close>

definition json_only :: "string \<Rightarrow> string option" where
  "json_only = [''/srv/samp.json'' \<mapsto> example_json]"

definition json_and_yaml :: "string \<Rightarrow> string option" where
  "json_and_yaml = [''/srv/samp.json'' \<mapsto> example_json, ''/srv/samp.yaml'' \<mapsto> ''port: 8888'']"

text \<open>Directories with a malformed file.\<close>

definition broken_json_and_yaml :: "string \<Rightarrow> string option" where
  "broken_json_and_yaml = [''/srv/samp.json'' \<mapsto> ''{'', ''/srv/samp.yaml'' \<mapsto> ''port: 8888'']"

definition broken_yaml_only :: "string \<Rightarrow> string option" where
  "broken_yaml_only = [''/srv/samp.yaml'' \<mapsto> ''port: ['']"

text \<open>Environments with a rejected boolean, with and without \<^verbatim>\<open>SAMP_PLUGINS\<close>.\<close>

definition plugins_and_rejected_bool_env :: "string \<Rightarrow> string option" where
  "plugins_and_rejected_bool_env =
     [''SAMP_PLUGINS'' \<mapsto> ''streamer'', ''SAMP_ANNOUNCE'' \<mapsto> ''yes'']"

definition rejected_bool_env :: "string \<Rightarrow> string option" where
  "rejected_bool_env = [''SAMP_ANNOUNCE'' \<mapsto> ''yes'']"

section \<open>Facts about the pieces\<close>

lemma Split_not_Nil: "Split s sep \<noteq> []"
  by (induction s) (auto split: list.splits)

lemma env_name_Inr: "\<exists>n. env_name f = Inr n"
  using Split_not_Nil [of "Tag_Get_json f" "CHR '',''"]
  by (cases "Split (Tag_Get_json f) (CHR '','')") (simp_all add: env_name_def)

lemma all_fields: "f \<in> set Config_fields"
  by (cases f) (simp_all add: Config_fields_def)

lemma distinct_fields: "distinct Config_fields"
  by (simp add: Config_fields_def)

lemma well_typed_iff: "well_typed c \<longleftrightarrow> (\<forall>f. Value_Type (c f) = field_Type f)"
  using all_fields by (auto simp: well_typed_def list_all_iff)

lemma type_String_eq [simp]:
  "(type_String t = ''*string'') = (t = PtrString)"
  "(type_String t = ''[]string'') = (t = SliceString)"
  "(type_String t = ''*bool'') = (t = PtrBool)"
  "(type_String t = ''*int'') = (t = PtrInt)"
  "(type_String t = ''*float32'') = (t = PtrFloat32)"
  by (cases t; simp)+

lemma print_simps [simp]: "cfg (print e s) = cfg s" "stdout (print e s) = stdout s @ [e]"
  by (simp_all add: print_def)

lemma seq_simps [simp]: "seq (s, None) k = k s" "seq (s, Some p) k = (s, Some p)"
  by (simp_all add: seq_def)

text \<open>
  The body of the loop for the field \<open>g\<close> writes to no other field, and what it writes
  is never nil.
\<close>

lemma field_body_touch:
  "cfg (fst (field_body w g s)) f = cfg s f \<or>
   (f = g \<and> \<not> IsNil (cfg (fst (field_body w g s)) f))"
  by (auto simp: field_body_def seq_def alloc_if_nil_def Value_Set_def Elem_SetString_def
     Elem_SetBool_def Elem_SetInt_def Elem_SetFloat_def Let_def
     split: sum.splits option.splits prod.splits Value.splits if_splits)

lemma fields_loop_touch:
  "cfg (fst (fields_loop w gs s)) f = cfg s f \<or>
   (f \<in> set gs \<and> \<not> IsNil (cfg (fst (fields_loop w gs s)) f))"
proof (induction gs arbitrary: s)
  case Nil
  show ?case by simp
next
  case (Cons g gs)
  obtain s1 p1 where b: "field_body w g s = (s1, p1)" by (cases "field_body w g s")
  have t1: "cfg s1 f = cfg s f \<or> (f = g \<and> \<not> IsNil (cfg s1 f))"
    using field_body_touch [of w g s f] b by simp
  show ?case
  proof (cases p1)
    case (Some p)
    with b t1 show ?thesis by auto
  next
    case None
    with b have e: "fields_loop w (g # gs) s = fields_loop w gs s1" by simp
    from Cons.IH [of s1] t1 show ?thesis unfolding e by auto
  qed
qed

lemma field_body_unset:
  "env_name g = Inr n \<Longrightarrow> LookupEnv w n = None \<Longrightarrow> field_body w g s = (s, None)"
  by (simp add: field_body_def)

lemma field_body_keeps:
  assumes "g = f \<Longrightarrow> env_name f = Inr n \<and> LookupEnv w n = None"
  shows "cfg (fst (field_body w g s)) f = cfg s f"
proof (cases "g = f")
  case True
  with assms show ?thesis by (simp add: field_body_unset)
next
  case False
  with field_body_touch [of w g s f] show ?thesis by auto
qed

lemma fields_loop_keeps:
  assumes "env_name f = Inr n" "LookupEnv w n = None"
  shows "cfg (fst (fields_loop w gs s)) f = cfg s f"
proof (induction gs arbitrary: s)
  case Nil
  show ?case by simp
next
  case (Cons g gs)
  obtain s1 p1 where b: "field_body w g s = (s1, p1)" by (cases "field_body w g s")
  have k: "cfg s1 f = cfg s f" using field_body_keeps [of g f n w s] assms b by simp
  show ?case
  proof (cases p1)
    case (Some p)
    with b k show ?thesis by simp
  next
    case None
    with b k Cons.IH [of s1] show ?thesis by simp
  qed
qed

text \<open>Closed forms of the allocate-and-set sequences and of the loop body.\<close>

lemma state_triv [simp]: "s\<lparr>cfg := cfg s\<rparr> = s" "(t::state)\<lparr>stdout := stdout t @ []\<rparr> = t"
  by simp_all

lemma again_unset:
  assumes "\<not> CanSet g \<or> (\<exists>n. env_name g = Inr n \<and> LookupEnv w n = None)"
      "field_body w g s = (s', p)" "cfg t g = cfg s' g"
  shows "\<exists>es. stdout s' = stdout s @ es \<and> field_body w g t = (t\<lparr>stdout := stdout t @ es\<rparr>, p)"
  using assms by (auto simp: field_body_def)

lemma field_body_set:
  assumes "CanSet g" "env_name g = Inr n" "LookupEnv w n = Some v"
  shows "field_body w g s =
    (case field_Type g of
       PtrString \<Rightarrow> seq (alloc_if_nil g PtrString s) (Elem_SetString g v)
     | SliceString \<Rightarrow> (print (Println ''cannot set gamemode via environment variables yet'') s, None)
     | PtrBool \<Rightarrow> (let s1 = (case snd (ParseBool v) of None \<Rightarrow> s
                                | Some e \<Rightarrow> print (Printf_warning g v ''boolean'' e) s)
                      in seq (alloc_if_nil g PtrBool s1) (Elem_SetBool g (fst (ParseBool v))))
     | PtrInt \<Rightarrow> (case Atoi v of
                   Inl e \<Rightarrow> (print (Printf_warning g v ''integer'' e) s, None)
                 | Inr i \<Rightarrow> seq (alloc_if_nil g PtrInt s) (Elem_SetInt g i))
     | PtrFloat32 \<Rightarrow> (case ParseFloat w v of
                   Inl e \<Rightarrow> (print (Printf_warning g v ''float'' e) s, None)
                 | Inr x \<Rightarrow> seq (alloc_if_nil g PtrFloat64 s) (Elem_SetFloat w g x))
     | t \<Rightarrow> (s, Some (unknown_kind (type_String t))))"
  using assms by (cases "field_Type g") (simp_all add: field_body_def split: prod.splits)


lemma upd_same [simp]: "cfg t g = x \<Longrightarrow> t\<lparr>cfg := (cfg t)(g := x)\<rparr> = t"
  by (cases t) auto

lemmas op_defs = seq_def alloc_if_nil_def Value_Set_def Elem_SetString_def
     Elem_SetBool_def Elem_SetInt_def Elem_SetFloat_def print_def


lemma set_string_eq:
  "field_Type g = PtrString \<Longrightarrow>
   seq (alloc_if_nil g PtrString s) (Elem_SetString g v) =
     (if IsNil (cfg s g) \<or> Value_Type (cfg s g) = PtrString
      then (s\<lparr>cfg := (cfg s)(g := String_ptr (Some v))\<rparr>, None)
      else (s, Some Set_wrong_kind))"
  by (cases "cfg s g") (auto simp: op_defs split: option.splits)

lemma set_bool_eq:
  "field_Type g = PtrBool \<Longrightarrow>
   seq (alloc_if_nil g PtrBool s) (Elem_SetBool g v) =
     (if IsNil (cfg s g) \<or> Value_Type (cfg s g) = PtrBool
      then (s\<lparr>cfg := (cfg s)(g := Bool_ptr (Some v))\<rparr>, None)
      else (s, Some Set_wrong_kind))"
  by (cases "cfg s g") (auto simp: op_defs split: option.splits)

lemma set_int_eq:
  "field_Type g = PtrInt \<Longrightarrow>
   seq (alloc_if_nil g PtrInt s) (Elem_SetInt g v) =
     (if IsNil (cfg s g) \<or> Value_Type (cfg s g) = PtrInt
      then (s\<lparr>cfg := (cfg s)(g := Int_ptr (Some v))\<rparr>, None)
      else (s, Some Set_wrong_kind))"
  by (cases "cfg s g") (auto simp: op_defs split: option.splits)

lemma set_float_eq:
  "field_Type g = PtrFloat32 \<Longrightarrow>
   seq (alloc_if_nil g PtrFloat64 s) (Elem_SetFloat w g x) =
     (if IsNil (cfg s g) then (s, Some (Set_not_assignable PtrFloat64 PtrFloat32))
      else if Value_Type (cfg s g) = PtrFloat32
      then (s\<lparr>cfg := (cfg s)(g := Float32_ptr (Some (float32_of w x)))\<rparr>, None)
      else if Value_Type (cfg s g) = PtrFloat64
      then (s\<lparr>cfg := (cfg s)(g := Float64_ptr (Some x))\<rparr>, None)
      else (s, Some Set_wrong_kind))"
  by (cases "cfg s g") (auto simp: op_defs split: option.splits)


lemma field_body_eq:
  assumes "CanSet g" "env_name g = Inr n" "LookupEnv w n = Some v"
  shows "field_body w g s =
    (case field_Type g of
       PtrString \<Rightarrow>
         if IsNil (cfg s g) \<or> Value_Type (cfg s g) = PtrString
         then (s\<lparr>cfg := (cfg s)(g := String_ptr (Some v))\<rparr>, None)
         else (s, Some Set_wrong_kind)
     | SliceString \<Rightarrow>
         (print (Println ''cannot set gamemode via environment variables yet'') s, None)
     | PtrBool \<Rightarrow>
         (case snd (ParseBool v) of
            None \<Rightarrow>
              if IsNil (cfg s g) \<or> Value_Type (cfg s g) = PtrBool
              then (s\<lparr>cfg := (cfg s)(g := Bool_ptr (Some (fst (ParseBool v))))\<rparr>, None)
              else (s, Some Set_wrong_kind)
          | Some e \<Rightarrow>
              if IsNil (cfg s g) \<or> Value_Type (cfg s g) = PtrBool
              then (s\<lparr>cfg := (cfg s)(g := Bool_ptr (Some (fst (ParseBool v)))),
                       stdout := stdout s @ [Printf_warning g v ''boolean'' e]\<rparr>, None)
              else (s\<lparr>stdout := stdout s @ [Printf_warning g v ''boolean'' e]\<rparr>,
                    Some Set_wrong_kind))
     | PtrInt \<Rightarrow>
         (case Atoi v of
            Inl e \<Rightarrow> (print (Printf_warning g v ''integer'' e) s, None)
          | Inr i \<Rightarrow>
              if IsNil (cfg s g) \<or> Value_Type (cfg s g) = PtrInt
              then (s\<lparr>cfg := (cfg s)(g := Int_ptr (Some i))\<rparr>, None)
              else (s, Some Set_wrong_kind))
     | PtrFloat32 \<Rightarrow>
         (case ParseFloat w v of
            Inl e \<Rightarrow> (print (Printf_warning g v ''float'' e) s, None)
          | Inr x \<Rightarrow>
              if IsNil (cfg s g) then (s, Some (Set_not_assignable PtrFloat64 PtrFloat32))
              else if Value_Type (cfg s g) = PtrFloat32
              then (s\<lparr>cfg := (cfg s)(g := Float32_ptr (Some (float32_of w x)))\<rparr>, None)
              else if Value_Type (cfg s g) = PtrFloat64
              then (s\<lparr>cfg := (cfg s)(g := Float64_ptr (Some x))\<rparr>, None)
              else (s, Some Set_wrong_kind))
     | t \<Rightarrow> (s, Some (unknown_kind (type_String t))))"
proof (cases "field_Type g")
  case PtrString
  then show ?thesis
    by (simp add: field_body_set [OF assms] set_string_eq)
next
  case PtrInt
  then show ?thesis
    by (simp add: field_body_set [OF assms] set_int_eq split: sum.splits)
next
  case PtrBool
  then show ?thesis
    by (cases "snd (ParseBool v)")
       (simp_all add: field_body_set [OF assms] set_bool_eq print_def)
next
  case PtrFloat32
  then show ?thesis
    by (simp add: field_body_set [OF assms] set_float_eq split: sum.splits)
next
  case PtrFloat64
  then show ?thesis by (simp add: field_body_set [OF assms])
next
  case SliceString
  then show ?thesis by (simp add: field_body_set [OF assms])
next
  case SlicePlugin
  then show ?thesis by (simp add: field_body_set [OF assms])
qed


lemma field_body_again_set:
  assumes "CanSet g" "env_name g = Inr n" "LookupEnv w n = Some v"
      "field_body w g s = (s', p)" "cfg t g = cfg s' g"
  shows "\<exists>es. stdout s' = stdout s @ es \<and> field_body w g t = (t\<lparr>stdout := stdout t @ es\<rparr>, p)"
  using assms(4,5) unfolding field_body_eq [OF assms(1-3)]
  by (cases "field_Type g")
     (auto simp: print_def split: option.splits sum.splits if_splits)


lemma field_body_again:
  assumes "field_body w g s = (s', p)" "cfg t g = cfg s' g"
  shows "\<exists>es. stdout s' = stdout s @ es \<and> field_body w g t = (t\<lparr>stdout := stdout t @ es\<rparr>, p)"
proof (cases "CanSet g")
  case False
  with assms again_unset show ?thesis by blast
next
  case True
  obtain n where n: "env_name g = Inr n" using env_name_Inr by blast
  show ?thesis
  proof (cases "LookupEnv w n")
    case None
    with n assms again_unset show ?thesis by blast
  next
    case (Some v)
    from field_body_again_set [OF True n Some assms] show ?thesis .
  qed
qed

lemma fields_loop_again:
  assumes "distinct gs" "fields_loop w gs s = (s', p)" "\<forall>g\<in>set gs. cfg t g = cfg s' g"
  shows "\<exists>es. stdout s' = stdout s @ es \<and> fields_loop w gs t = (t\<lparr>stdout := stdout t @ es\<rparr>, p)"
  using assms
proof (induction gs arbitrary: s t)
  case Nil
  then show ?case by auto
next
  case (Cons g gs)
  obtain s1 p1 where b: "field_body w g s = (s1, p1)" by (cases "field_body w g s")
  show ?case
  proof (cases p1)
    case (Some q)
    with b Cons.prems(2) have e: "s' = s1" "p = Some q" by simp_all
    from Cons.prems(3) e have "cfg t g = cfg s1 g" by simp
    from field_body_again [OF b this] obtain es where
      "stdout s1 = stdout s @ es" "field_body w g t = (t\<lparr>stdout := stdout t @ es\<rparr>, p1)"
      by blast
    with e Some show ?thesis by auto
  next
    case None
    with b Cons.prems(2) have l: "fields_loop w gs s1 = (s', p)" by simp
    have "g \<notin> set gs" using Cons.prems(1) by simp
    with fields_loop_touch [of w gs s1 g] l have "cfg s' g = cfg s1 g" by auto
    with Cons.prems(3) have "cfg t g = cfg s1 g" by simp
    from field_body_again [OF b this] obtain es1 where
      es1: "stdout s1 = stdout s @ es1" "field_body w g t = (t\<lparr>stdout := stdout t @ es1\<rparr>, p1)"
      by blast
    let ?t1 = "t\<lparr>stdout := stdout t @ es1\<rparr>"
    have d: "distinct gs" using Cons.prems(1) by simp
    have "\<forall>h\<in>set gs. cfg ?t1 h = cfg s' h" using Cons.prems(3) by simp
    from Cons.IH [OF d l this] obtain es2 where
      es2: "stdout s' = stdout s1 @ es2"
           "fields_loop w gs ?t1 = (?t1\<lparr>stdout := stdout ?t1 @ es2\<rparr>, p)"
      by blast
    have "stdout s' = stdout s @ (es1 @ es2)" using es1 es2 by simp
    moreover have "fields_loop w (g # gs) t = (t\<lparr>stdout := stdout t @ (es1 @ es2)\<rparr>, p)"
      using es1 es2 None by simp
    ultimately show ?thesis by blast
  qed
qed

lemma CanSet_cases: "CanSet f \<or> f = priv_dir"
  by (simp add: CanSet_def)

lemma field_body_priv_dir: "field_body w priv_dir s = (s, None)"
  by (simp add: field_body_def CanSet_def)

lemma env_name_Plugins: "env_name Plugins = Inr ''SAMP_PLUGINS''"
  by (simp add: env_name_def ToUpper_def upper_byte_def)

lemma env_name_StreamDistance: "env_name StreamDistance = Inr ''SAMP_STREAM_DISTANCE''"
  by (simp add: env_name_def ToUpper_def upper_byte_def)

lemma field_Type_SlicePlugin: "field_Type g = SlicePlugin \<Longrightarrow> g = Plugins"
  by (cases g) simp_all

lemma field_Type_PtrFloat32: "field_Type g = PtrFloat32 \<Longrightarrow> g = StreamDistance"
  by (cases g) simp_all

lemma field_Type_not_PtrFloat64: "field_Type g \<noteq> PtrFloat64"
  by (cases g) simp_all

lemma fields_loop_frame:
  assumes "\<And>s. cfg (fst (field_body w f s)) f = cfg s f"
  shows "cfg (fst (fields_loop w gs s)) f = cfg s f"
proof (induction gs arbitrary: s)
  case Nil
  show ?case by simp
next
  case (Cons g gs)
  obtain s1 p1 where b: "field_body w g s = (s1, p1)" by (cases "field_body w g s")
  have k: "cfg s1 f = cfg s f"
    using field_body_touch [of w g s f] assms [of s] b by (cases "g = f") auto
  show ?case
  proof (cases p1)
    case (Some p)
    with b k show ?thesis by simp
  next
    case None
    with b k Cons.IH [of s1] show ?thesis by simp
  qed
qed

lemma field_body_stdout: "\<exists>es. stdout (fst (field_body w g s)) = stdout s @ es"
proof -
  obtain s' p where b: "field_body w g s = (s', p)" by (cases "field_body w g s")
  from field_body_again [OF b refl] b show ?thesis by auto
qed

lemma fields_loop_stdout: "\<exists>es. stdout (fst (fields_loop w gs s)) = stdout s @ es"
proof (induction gs arbitrary: s)
  case Nil
  show ?case by simp
next
  case (Cons g gs)
  obtain s1 p1 where b: "field_body w g s = (s1, p1)" by (cases "field_body w g s")
  from field_body_stdout [of w g s] b obtain es1 where e1: "stdout s1 = stdout s @ es1" by auto
  show ?case
  proof (cases p1)
    case (Some p)
    with b e1 show ?thesis by simp
  next
    case None
    from Cons.IH [of s1] obtain es2 where
      "stdout (fst (fields_loop w gs s1)) = stdout s1 @ es2" by blast
    with b None e1 show ?thesis by simp
  qed
qed

lemma fields_loop_prints:
  assumes "\<And>s s'. field_body w f s = (s', None) \<Longrightarrow> E \<in> set (stdout s')"
      "f \<in> set gs \<or> E \<in> set (stdout s)" "fields_loop w gs s = (s', None)"
  shows "E \<in> set (stdout s')"
  using assms(2,3)
proof (induction gs arbitrary: s)
  case Nil
  then show ?case by simp
next
  case (Cons g gs)
  obtain s1 p1 where b: "field_body w g s = (s1, p1)" by (cases "field_body w g s")
  have p1: "p1 = None" using Cons.prems(2) b by (cases p1) simp_all
  with b Cons.prems(2) have l: "fields_loop w gs s1 = (s', None)" by simp
  from field_body_stdout [of w g s] b obtain es1 where e1: "stdout s1 = stdout s @ es1" by auto
  have "f \<in> set gs \<or> E \<in> set (stdout s1)"
  proof (cases "g = f")
    case True
    with assms(1) b p1 show ?thesis by simp
  next
    case False
    with Cons.prems(1) e1 show ?thesis by auto
  qed
  from Cons.IH [OF this l] show ?case .
qed

lemma fields_loop_panics:
  assumes "\<And>s. cfg s f = V \<Longrightarrow> \<exists>p. field_body w f s = (s, Some p)"
      "f \<in> set gs" "cfg s f = V"
  shows "snd (fields_loop w gs s) \<noteq> None \<and> cfg (fst (fields_loop w gs s)) f = V"
  using assms(2,3)
proof (induction gs arbitrary: s)
  case Nil
  then show ?case by simp
next
  case (Cons g gs)
  show ?case
  proof (cases "g = f")
    case True
    with assms(1) [OF Cons.prems(2)] Cons.prems(2) show ?thesis by auto
  next
    case False
    obtain s1 p1 where b: "field_body w g s = (s1, p1)" by (cases "field_body w g s")
    from False field_body_touch [of w g s f] b Cons.prems(2) have k: "cfg s1 f = V" by auto
    show ?thesis
    proof (cases p1)
      case (Some p)
      with b k show ?thesis by simp
    next
      case None
      from False Cons.prems(1) have "f \<in> set gs" by simp
      from Cons.IH [OF this k] b None show ?thesis by simp
    qed
  qed
qed


lemma env_name_Port: "env_name Port = Inr ''SAMP_PORT''"
  by (simp add: env_name_def ToUpper_def upper_byte_def)

lemma ParseBool_failure: "snd (ParseBool v) = Some e \<Longrightarrow> fst (ParseBool v) = False"
  by (simp add: ParseBool_def split: if_splits)

lemma Value_Type_zero [simp]: "Value_Type (zero_Value t) = t"
  by (cases t) simp_all

lemma well_typed_zero_Config: "well_typed zero_Config"
  by (simp add: well_typed_iff zero_Config_def)

lemma field_body_type:
  assumes "Value_Type (cfg s f) = field_Type f"
  shows "Value_Type (cfg (fst (field_body w g s)) f) = field_Type f"
proof (cases "CanSet g")
  case False
  with assms show ?thesis by (simp add: field_body_def)
next
  case True
  obtain n where n: "env_name g = Inr n" using env_name_Inr by blast
  show ?thesis
  proof (cases "LookupEnv w n")
    case None
    with n assms show ?thesis by (simp add: field_body_unset)
  next
    case (Some v)
    show ?thesis
    proof (cases "g = f")
      case False
      with field_body_touch [of w g s f] assms show ?thesis by auto
    next
      case True
      with assms have t: "Value_Type (cfg s g) = field_Type g" by simp
      show ?thesis unfolding field_body_eq [OF \<open>CanSet g\<close> n Some] True [symmetric]
        by (cases "field_Type g")
           (simp_all add: t split: option.splits sum.splits)
    qed
  qed
qed


lemma field_body_well_typed:
  "well_typed (cfg s) \<Longrightarrow> well_typed (cfg (fst (field_body w g s)))"
  by (simp add: well_typed_iff field_body_type)

lemma fields_loop_well_typed:
  "well_typed (cfg s) \<Longrightarrow> well_typed (cfg (fst (fields_loop w gs s)))"
proof (induction gs arbitrary: s)
  case Nil
  then show ?case by simp
next
  case (Cons g gs)
  obtain s1 p1 where b: "field_body w g s = (s1, p1)" by (cases "field_body w g s")
  from field_body_well_typed [OF Cons.prems, of w g] b have w1: "well_typed (cfg s1)" by simp
  show ?case
  proof (cases p1)
    case (Some p)
    with b w1 show ?thesis by simp
  next
    case None
    with b Cons.IH [OF w1] show ?thesis by simp
  qed
qed

text \<open>On a well-typed struct the body panics in exactly two situations.\<close>

lemma field_body_panic_cases:
  assumes "Value_Type (cfg s g) = field_Type g" "field_body w g s = (s', Some p)"
  shows "(g = Plugins \<and> LookupEnv w ''SAMP_PLUGINS'' \<noteq> None \<and>
            p = unknown_kind ''[]runtime.Plugin'') \<or>
         (g = StreamDistance \<and> IsNil (cfg s StreamDistance) \<and>
            (\<exists>v x. LookupEnv w ''SAMP_STREAM_DISTANCE'' = Some v \<and> ParseFloat w v = Inr x) \<and>
            p = Set_not_assignable PtrFloat64 PtrFloat32)"
proof (cases "CanSet g")
  case False
  with assms show ?thesis by (simp add: field_body_def)
next
  case True
  obtain n where n: "env_name g = Inr n" using env_name_Inr by blast
  show ?thesis
  proof (cases "LookupEnv w n")
    case None
    with n assms show ?thesis by (simp add: field_body_unset)
  next
    case (Some v)
    note e = field_body_eq [OF True n Some, of s]
    show ?thesis
    proof (cases "field_Type g")
      case SlicePlugin
      then have g: "g = Plugins" by (rule field_Type_SlicePlugin)
      with n have "n = ''SAMP_PLUGINS''" by (simp add: env_name_Plugins)
      with assms(2) Some SlicePlugin g show ?thesis
        unfolding e by simp
    next
      case PtrFloat32
      then have g: "g = StreamDistance" by (rule field_Type_PtrFloat32)
      with n have n': "n = ''SAMP_STREAM_DISTANCE''" by (simp add: env_name_StreamDistance)
      show ?thesis
      proof (cases "ParseFloat w v")
        case (Inl err)
        with assms(2) PtrFloat32 show ?thesis unfolding e by simp
      next
        case (Inr x)
        with assms PtrFloat32 have "IsNil (cfg s g)" "p = Set_not_assignable PtrFloat64 PtrFloat32"
          unfolding e by (simp_all split: if_splits)
        with g n' Some Inr show ?thesis by auto
      qed
    next
      case PtrFloat64
      with field_Type_not_PtrFloat64 show ?thesis by blast
    next
      case PtrString
      with assms show ?thesis unfolding e by simp
    next
      case PtrInt
      with assms show ?thesis unfolding e by (simp split: sum.splits)
    next
      case PtrBool
      with assms show ?thesis unfolding e by (simp split: option.splits)
    next
      case SliceString
      with assms show ?thesis unfolding e by simp
    qed
  qed
qed

lemma fields_loop_panic_cases:
  assumes "well_typed (cfg s)" "fields_loop w gs s = (s', Some p)"
  shows "(LookupEnv w ''SAMP_PLUGINS'' \<noteq> None \<and> p = unknown_kind ''[]runtime.Plugin'') \<or>
         (IsNil (cfg s StreamDistance) \<and>
            (\<exists>v x. LookupEnv w ''SAMP_STREAM_DISTANCE'' = Some v \<and> ParseFloat w v = Inr x) \<and>
            p = Set_not_assignable PtrFloat64 PtrFloat32)"
  using assms
proof (induction gs arbitrary: s)
  case Nil
  then show ?case by simp
next
  case (Cons g gs)
  obtain s1 p1 where b: "field_body w g s = (s1, p1)" by (cases "field_body w g s")
  show ?case
  proof (cases p1)
    case (Some q)
    with b Cons.prems(2) have "field_body w g s = (s', Some p)" by simp
    moreover from Cons.prems(1) have "Value_Type (cfg s g) = field_Type g"
      by (simp add: well_typed_iff)
    ultimately show ?thesis using field_body_panic_cases by blast
  next
    case None
    with b Cons.prems(2) have l: "fields_loop w gs s1 = (s', Some p)" by simp
    from field_body_well_typed [OF Cons.prems(1), of w g] b have w1: "well_typed (cfg s1)" by simp
    from field_body_touch [of w g s StreamDistance] b
    have "IsNil (cfg s1 StreamDistance) \<Longrightarrow> IsNil (cfg s StreamDistance)" by auto
    with Cons.IH [OF w1 l] show ?thesis by blast
  qed
qed

lemma fields_loop_sets_inv:
  assumes "\<And>g s. I s \<Longrightarrow> I (fst (field_body w g s))"
      "\<And>s s'. I s \<Longrightarrow> field_body w f s = (s', None) \<Longrightarrow> cfg s' f = V"
      "I s" "f \<in> set gs \<or> cfg s f = V" "fields_loop w gs s = (s', None)"
  shows "cfg s' f = V"
  using assms(3-)
proof (induction gs arbitrary: s)
  case Nil
  then show ?case by simp
next
  case (Cons g gs)
  obtain s1 p1 where b: "field_body w g s = (s1, p1)" by (cases "field_body w g s")
  have p1: "p1 = None" using Cons.prems(3) b by (cases p1) simp_all
  with b Cons.prems(3) have l: "fields_loop w gs s1 = (s', None)" by simp
  from assms(1) [OF Cons.prems(1), of g] b have i1: "I s1" by simp
  have "f \<in> set gs \<or> cfg s1 f = V"
  proof (cases "g = f")
    case True
    with assms(2) [OF Cons.prems(1)] b p1 show ?thesis by simp
  next
    case False
    with field_body_touch [of w g s f] b have "cfg s1 f = cfg s f" by auto
    with Cons.prems(2) False show ?thesis by auto
  qed
  from Cons.IH [OF i1 this l] show ?case .
qed

lemma LoadEnvironmentVariables_returns:
  assumes "well_typed c" "LookupEnv w ''SAMP_PLUGINS'' = None"
      "\<And>v x. LookupEnv w ''SAMP_STREAM_DISTANCE'' = Some v \<Longrightarrow> ParseFloat w v = Inr x \<Longrightarrow>
         \<not> IsNil (c StreamDistance)"
  shows "snd (LoadEnvironmentVariables w c) = None"
proof (cases "LoadEnvironmentVariables w c")
  case (Pair s' q)
  show ?thesis
  proof (cases q)
    case None
    with Pair show ?thesis by simp
  next
    case (Some p)
    with Pair have "fields_loop w Config_fields \<lparr>cfg = c, stdout = []\<rparr> = (s', Some p)"
      by (simp add: LoadEnvironmentVariables_def)
    from fields_loop_panic_cases [OF _ this] assms show ?thesis by auto
  qed
qed

text \<open>What a call that returns has done to a scalar field whose variable is set.\<close>

lemma LoadEnvironmentVariables_overrides:
  assumes "snd (LoadEnvironmentVariables w c) = None"
      "CanSet f" "env_name f = Inr n" "LookupEnv w n = Some v"
  shows "(field_Type f = PtrString \<longrightarrow>
            cfg (fst (LoadEnvironmentVariables w c)) f = String_ptr (Some v)) \<and>
         (field_Type f = PtrBool \<longrightarrow>
            cfg (fst (LoadEnvironmentVariables w c)) f = Bool_ptr (Some (fst (ParseBool v)))) \<and>
         (field_Type f = PtrInt \<longrightarrow> Atoi v = Inr i \<longrightarrow>
            cfg (fst (LoadEnvironmentVariables w c)) f = Int_ptr (Some i)) \<and>
         (field_Type f = PtrFloat32 \<longrightarrow> ParseFloat w v = Inr x \<longrightarrow> well_typed c \<longrightarrow>
            cfg (fst (LoadEnvironmentVariables w c)) f = Float32_ptr (Some (float32_of w x)))"
proof -
  let ?s0 = "\<lparr>cfg = c, stdout = []\<rparr>"
  obtain s' where r: "fields_loop w Config_fields ?s0 = (s', None)"
    using assms(1) by (cases "fields_loop w Config_fields ?s0")
      (simp add: LoadEnvironmentVariables_def)
  note e = field_body_eq [OF assms(2-4)]
  have m: "f \<in> set Config_fields \<or> cfg ?s0 f = V" for V using all_fields by simp
  have 1: "cfg s' f = String_ptr (Some v)" if "field_Type f = PtrString"
    by (rule fields_loop_sets_inv [where I = "\<lambda>_. True", OF _ _ _ m r])
       (use that in \<open>auto simp: e split: if_splits\<close>)
  have 2: "cfg s' f = Bool_ptr (Some (fst (ParseBool v)))" if "field_Type f = PtrBool"
    by (rule fields_loop_sets_inv [where I = "\<lambda>_. True", OF _ _ _ m r])
       (use that in \<open>auto simp: e split: if_splits option.splits\<close>)
  have 3: "cfg s' f = Int_ptr (Some i)" if "field_Type f = PtrInt" "Atoi v = Inr i"
    by (rule fields_loop_sets_inv [where I = "\<lambda>_. True", OF _ _ _ m r])
       (use that in \<open>auto simp: e split: if_splits\<close>)
  have 4: "cfg s' f = Float32_ptr (Some (float32_of w x))"
    if h: "field_Type f = PtrFloat32" "ParseFloat w v = Inr x" "well_typed c"
  proof (rule fields_loop_sets_inv [where I = "\<lambda>s. well_typed (cfg s)", OF _ _ _ m r])
    show "well_typed (cfg (fst (field_body w g s)))" if "well_typed (cfg s)" for g s
      using that by (rule field_body_well_typed)
    show "cfg t' f = Float32_ptr (Some (float32_of w x))"
      if "well_typed (cfg t)" "field_body w f t = (t', None)" for t t'
    proof -
      from that(1) h(1) have "Value_Type (cfg t f) = PtrFloat32" by (simp add: well_typed_iff)
      with that(2) h show ?thesis by (auto simp: e split: if_splits)
    qed
    show "well_typed (cfg ?s0)" using h(3) by simp
  qed
  from 1 2 3 4 r show ?thesis by (simp add: LoadEnvironmentVariables_def)
qed

lemma env_name_Announce: "env_name Announce = Inr ''SAMP_ANNOUNCE''"
  by (simp add: env_name_def ToUpper_def upper_byte_def)

lemma env_name_MaxPlayers: "env_name MaxPlayers = Inr ''SAMP_MAXPLAYERS''"
  by (simp add: env_name_def ToUpper_def upper_byte_def)

lemma env_name_Echo: "env_name Echo = Inr ''SAMP_ECHO''"
  by (simp add: env_name_def ToUpper_def upper_byte_def)

lemma CanSet_if_not_string: "field_Type f \<noteq> PtrString \<Longrightarrow> CanSet f"
  using CanSet_cases [of f] by auto

lemma StreamDistance_nil_panics:
  assumes "LookupEnv w ''SAMP_STREAM_DISTANCE'' = Some v" "ParseFloat w v = Inr x"
      "cfg s StreamDistance = Float32_ptr None"
  shows "\<exists>p. field_body w StreamDistance s = (s, Some p)"
  using assms
  by (simp add: field_body_eq [OF _ env_name_StreamDistance assms(1)] CanSet_def)

lemma Plugins_set_panics:
  assumes "LookupEnv w ''SAMP_PLUGINS'' = Some v"
  shows "\<exists>p. field_body w Plugins s = (s, Some p)"
  by (simp add: field_body_eq [OF _ env_name_Plugins assms] CanSet_def)

text \<open>
  A \<^verbatim>\<open>[]string\<close> field is never written, whatever the environment; when its variable
  is set and the call returns, the informational line has been printed.
\<close>

lemma SliceString_fields_unchanged:
  assumes "field_Type f = SliceString"
  shows "cfg (fst (LoadEnvironmentVariables w c)) f = c f"
proof -
  have "cfg (fst (field_body w f s)) f = cfg s f" for s
  proof -
    obtain n where n: "env_name f = Inr n" using env_name_Inr by blast
    have c: "CanSet f" using assms by (simp add: CanSet_if_not_string)
    show ?thesis
    proof (cases "LookupEnv w n")
      case None
      with n show ?thesis by (simp add: field_body_unset)
    next
      case (Some v)
      with assms show ?thesis by (simp add: field_body_eq [OF c n Some])
    qed
  qed
  from fields_loop_frame [of w f Config_fields "\<lparr>cfg = c, stdout = []\<rparr>", OF this]
  show ?thesis by (simp add: LoadEnvironmentVariables_def)
qed

lemma SliceString_fields_message:
  assumes "field_Type f = SliceString" "env_name f = Inr n" "LookupEnv w n = Some v"
      "snd (LoadEnvironmentVariables w c) = None"
  shows "Println ''cannot set gamemode via environment variables yet''
           \<in> set (stdout (fst (LoadEnvironmentVariables w c)))"
proof -
  let ?s0 = "\<lparr>cfg = c, stdout = []\<rparr>"
  obtain s' where r: "fields_loop w Config_fields ?s0 = (s', None)"
    using assms(4) by (cases "fields_loop w Config_fields ?s0")
      (simp add: LoadEnvironmentVariables_def)
  have c: "CanSet f" using assms(1) by (simp add: CanSet_if_not_string)
  have "Println ''cannot set gamemode via environment variables yet'' \<in> set (stdout s')"
    by (rule fields_loop_prints [of w f _ Config_fields ?s0, OF _ _ r])
       (use assms(1) all_fields in \<open>auto simp: field_body_eq [OF c assms(2,3)]\<close>)
  with r show ?thesis by (simp add: LoadEnvironmentVariables_def)
qed

lemma ConfigFromDirectory_json:
  "Exists w (Join w dir ''samp.json'') \<Longrightarrow>
   ConfigFromDirectory w dir = ConfigFromJSON w (Join w dir ''samp.json'')"
  by (simp add: ConfigFromDirectory_def)

lemma json_key_priv_dir: "json_key priv_dir = None"
  by (simp add: json_key_def CanSet_def)

lemma json_key_Echo: "json_key Echo = Some ''echo''"
  by (simp add: json_key_def CanSet_def)

text \<open>
  The spec's example of precedence: \<^verbatim>\<open>samp.json\<close> gives port 7777 and
  \<^verbatim>\<open>SAMP_PORT=9999\<close> is set; \<^verbatim>\<open>NewConfigFromEnvironment\<close> gives port 9999.
\<close>

lemma NewConfigFromEnvironment_port_example:
  "NewConfigFromEnvironment (example_world [''SAMP_PORT'' \<mapsto> ''9999''] json_only) ''/srv''
     = ((c, e), p) \<Longrightarrow> c Port = Int_ptr (Some 9999) \<and> e = None \<and> p = None"
proof -
  let ?w = "example_world [''SAMP_PORT'' \<mapsto> ''9999''] json_only"
  let ?c = "(zero_Config(Port := Int_ptr (Some 7777)))(priv_dir := String_ptr (Some ''/srv''))"
  assume n: "NewConfigFromEnvironment ?w ''/srv'' = ((c, e), p)"
  have d: "ConfigFromDirectory ?w ''/srv'' = (zero_Config(Port := Int_ptr (Some 7777)), None)"
    by (simp add: ConfigFromDirectory_def ConfigFromJSON_def example_world_def json_only_def)
  have l: "LookupEnv ?w ''SAMP_PORT'' = Some ''9999''" "LookupEnv ?w ''SAMP_PLUGINS'' = None"
    "LookupEnv ?w ''SAMP_STREAM_DISTANCE'' = None"
    by (simp_all add: example_world_def)
  have wt: "well_typed ?c" by (simp add: well_typed_iff zero_Config_def)
  have r: "snd (LoadEnvironmentVariables ?w ?c) = None"
    by (rule LoadEnvironmentVariables_returns [OF wt l(2)]) (simp add: l(3))
  have a: "Atoi ''9999'' = Inr 9999" by (simp add: Atoi_def is_digit_def)
  have cs: "CanSet Port" by (simp add: CanSet_def)
  from LoadEnvironmentVariables_overrides [OF r cs env_name_Port l(1), of 9999] a
  have "cfg (fst (LoadEnvironmentVariables ?w ?c)) Port = Int_ptr (Some 9999)" by simp
  with d r n show ?thesis
    by (cases "LoadEnvironmentVariables ?w ?c") (auto simp: NewConfigFromEnvironment_def)
qed

text \<open>The parse-failure policy, for calls that return (boolean) and for all calls (numbers).\<close>

lemma parse_failure_on_return:
  "(field_Type fb = PtrBool \<longrightarrow> env_name fb = Inr nb \<longrightarrow> LookupEnv w nb = Some vb \<longrightarrow>
      snd (ParseBool vb) = Some eb \<longrightarrow> snd (LoadEnvironmentVariables w c) = None \<longrightarrow>
        cfg (fst (LoadEnvironmentVariables w c)) fb = Bool_ptr (Some False) \<and>
        Printf_warning fb vb ''boolean'' eb \<in> set (stdout (fst (LoadEnvironmentVariables w c)))) \<and>
   (field_Type fi = PtrInt \<longrightarrow> env_name fi = Inr ni \<longrightarrow> LookupEnv w ni = Some vi \<longrightarrow>
      Atoi vi = Inl ei \<longrightarrow>
        cfg (fst (LoadEnvironmentVariables w c)) fi = c fi) \<and>
   (field_Type ff = PtrFloat32 \<longrightarrow> env_name ff = Inr nf \<longrightarrow> LookupEnv w nf = Some vf \<longrightarrow>
      ParseFloat w vf = Inl ef \<longrightarrow>
        cfg (fst (LoadEnvironmentVariables w c)) ff = c ff)"
proof (intro conjI impI)
  assume a: "field_Type fb = PtrBool" "env_name fb = Inr nb" "LookupEnv w nb = Some vb"
    "snd (ParseBool vb) = Some eb" "snd (LoadEnvironmentVariables w c) = None"
  have cs: "CanSet fb" using a(1) by (simp add: CanSet_if_not_string)
  from LoadEnvironmentVariables_overrides [OF a(5) cs a(2,3)] a(1) ParseBool_failure [OF a(4)]
  show "cfg (fst (LoadEnvironmentVariables w c)) fb = Bool_ptr (Some False)" by simp
  let ?s0 = "\<lparr>cfg = c, stdout = []\<rparr>"
  obtain s' where r: "fields_loop w Config_fields ?s0 = (s', None)"
    using a(5) by (cases "fields_loop w Config_fields ?s0")
      (simp add: LoadEnvironmentVariables_def)
  have "Printf_warning fb vb ''boolean'' eb \<in> set (stdout s')"
    by (rule fields_loop_prints [of w fb _ Config_fields ?s0, OF _ _ r])
       (use a(1,4) all_fields in \<open>auto simp: field_body_eq [OF cs a(2,3)] split: if_splits\<close>)
  with r show "Printf_warning fb vb ''boolean'' eb
      \<in> set (stdout (fst (LoadEnvironmentVariables w c)))"
    by (simp add: LoadEnvironmentVariables_def)
next
  assume a: "field_Type fi = PtrInt" "env_name fi = Inr ni" "LookupEnv w ni = Some vi"
    "Atoi vi = Inl ei"
  have cs: "CanSet fi" using a(1) by (simp add: CanSet_if_not_string)
  have "cfg (fst (field_body w fi s)) fi = cfg s fi" for s
    using a(1,4) by (simp add: field_body_eq [OF cs a(2,3)])
  from fields_loop_frame [of w fi Config_fields "\<lparr>cfg = c, stdout = []\<rparr>", OF this]
  show "cfg (fst (LoadEnvironmentVariables w c)) fi = c fi"
    by (simp add: LoadEnvironmentVariables_def)
next
  assume a: "field_Type ff = PtrFloat32" "env_name ff = Inr nf" "LookupEnv w nf = Some vf"
    "ParseFloat w vf = Inl ef"
  have cs: "CanSet ff" using a(1) by (simp add: CanSet_if_not_string)
  have "cfg (fst (field_body w ff s)) ff = cfg s ff" for s
    using a(1,4) by (simp add: field_body_eq [OF cs a(2,3)])
  from fields_loop_frame [of w ff Config_fields "\<lparr>cfg = c, stdout = []\<rparr>", OF this]
  show "cfg (fst (LoadEnvironmentVariables w c)) ff = c ff"
    by (simp add: LoadEnvironmentVariables_def)
qed

text \<open>
  \<^verbatim>\<open>SAMP_ANNOUNCE=yes\<close>, \<^verbatim>\<open>SAMP_MAXPLAYERS=notanumber\<close> and
  \<^verbatim>\<open>SAMP_STREAM_DISTANCE=far\<close> on a struct with \<^verbatim>\<open>maxplayers\<close> 50.
\<close>

lemma parse_failure_on_return_example:
  "field_Type Announce = PtrBool \<and> env_name Announce = Inr ''SAMP_ANNOUNCE'' \<and>
   LookupEnv (example_world unparsable_env Map.empty) ''SAMP_ANNOUNCE'' = Some ''yes'' \<and>
   snd (ParseBool ''yes'') = Some ErrSyntax \<and>
   snd (LoadEnvironmentVariables (example_world unparsable_env Map.empty)
          (zero_Config(MaxPlayers := Int_ptr (Some 50)))) = None \<and>
   cfg (fst (LoadEnvironmentVariables (example_world unparsable_env Map.empty)
          (zero_Config(MaxPlayers := Int_ptr (Some 50))))) Announce = Bool_ptr (Some False) \<and>
   Printf_warning Announce ''yes'' ''boolean'' ErrSyntax
     \<in> set (stdout (fst (LoadEnvironmentVariables (example_world unparsable_env Map.empty)
          (zero_Config(MaxPlayers := Int_ptr (Some 50)))))) \<and>
   field_Type MaxPlayers = PtrInt \<and> env_name MaxPlayers = Inr ''SAMP_MAXPLAYERS'' \<and>
   LookupEnv (example_world unparsable_env Map.empty) ''SAMP_MAXPLAYERS'' = Some ''notanumber'' \<and>
   Atoi ''notanumber'' = Inl ErrSyntax \<and>
   cfg (fst (LoadEnvironmentVariables (example_world unparsable_env Map.empty)
          (zero_Config(MaxPlayers := Int_ptr (Some 50))))) MaxPlayers = Int_ptr (Some 50) \<and>
   field_Type StreamDistance = PtrFloat32 \<and>
   env_name StreamDistance = Inr ''SAMP_STREAM_DISTANCE'' \<and>
   LookupEnv (example_world unparsable_env Map.empty) ''SAMP_STREAM_DISTANCE'' = Some ''far'' \<and>
   ParseFloat (example_world unparsable_env Map.empty) ''far'' = Inl ErrSyntax \<and>
   cfg (fst (LoadEnvironmentVariables (example_world unparsable_env Map.empty)
          (zero_Config(MaxPlayers := Int_ptr (Some 50))))) StreamDistance = Float32_ptr None"
proof -
  let ?w = "example_world unparsable_env Map.empty"
  let ?c = "zero_Config(MaxPlayers := Int_ptr (Some 50))"
  have wt: "well_typed ?c" by (simp add: well_typed_iff zero_Config_def)
  have l: "LookupEnv ?w ''SAMP_ANNOUNCE'' = Some ''yes''"
    "LookupEnv ?w ''SAMP_MAXPLAYERS'' = Some ''notanumber''"
    "LookupEnv ?w ''SAMP_STREAM_DISTANCE'' = Some ''far''"
    "LookupEnv ?w ''SAMP_PLUGINS'' = None"
    by (simp_all add: example_world_def unparsable_env_def)
  have pf: "ParseFloat ?w ''far'' = Inl ErrSyntax" by (simp add: example_world_def)
  have pb: "snd (ParseBool ''yes'') = Some ErrSyntax" by (simp add: ParseBool_def)
  have pa: "Atoi ''notanumber'' = Inl ErrSyntax" by (simp add: Atoi_def is_digit_def)
  have r: "snd (LoadEnvironmentVariables ?w ?c) = None"
    by (rule LoadEnvironmentVariables_returns [OF wt l(4)]) (use l(3) pf in auto)
  from parse_failure_on_return [where w = ?w and c = ?c and fb = Announce
      and nb = "''SAMP_ANNOUNCE''" and vb = "''yes''" and eb = ErrSyntax
      and fi = MaxPlayers and ni = "''SAMP_MAXPLAYERS''" and vi = "''notanumber''"
      and ei = ErrSyntax and ff = StreamDistance and nf = "''SAMP_STREAM_DISTANCE''"
      and vf = "''far''" and ef = ErrSyntax]
    l pf pb pa r env_name_Announce env_name_MaxPlayers env_name_StreamDistance
  show ?thesis by (simp add: zero_Config_def)
qed

lemma seq_assoc: "seq (seq r k1) k2 = seq r (\<lambda>s. seq (k1 s) k2)"
  by (cases r) (auto simp: seq_def split: option.splits)

lemma fields_loop_append:
  "fields_loop w (xs @ ys) s = seq (fields_loop w xs s) (fields_loop w ys)"
proof (induction xs arbitrary: s)
  case Nil
  show ?case by simp
next
  case (Cons x xs)
  show ?case
  proof (cases "field_body w x s")
    case (Pair s1 p1)
    with Cons.IH [of s1] show ?thesis by (cases p1) simp_all
  qed
qed

text \<open>The only lines the body for \<open>g\<close> prints are the informational one and warnings about \<open>g\<close>.\<close>

lemma field_body_events:
  assumes "e \<in> set (stdout (fst (field_body w g s)))"
  shows "e \<in> set (stdout s) \<or>
         e = Println ''cannot set gamemode via environment variables yet'' \<or>
         (\<exists>v k err. e = Printf_warning g v k err)"
proof (cases "CanSet g")
  case False
  with assms show ?thesis by (simp add: field_body_def)
next
  case True
  obtain n where n: "env_name g = Inr n" using env_name_Inr by blast
  show ?thesis
  proof (cases "LookupEnv w n")
    case None
    with n assms show ?thesis by (simp add: field_body_unset)
  next
    case (Some v)
    from assms show ?thesis unfolding field_body_eq [OF True n Some]
      by (cases "field_Type g") (auto split: option.splits sum.splits if_splits)
  qed
qed

lemma fields_loop_events:
  assumes "e \<in> set (stdout (fst (fields_loop w gs s)))"
  shows "e \<in> set (stdout s) \<or>
         e = Println ''cannot set gamemode via environment variables yet'' \<or>
         (\<exists>g\<in>set gs. \<exists>v k err. e = Printf_warning g v k err)"
  using assms
proof (induction gs arbitrary: s)
  case Nil
  then show ?case by simp
next
  case (Cons g gs)
  obtain s1 p1 where b: "field_body w g s = (s1, p1)" by (cases "field_body w g s")
  have "e \<in> set (stdout s1) \<or>
        e = Println ''cannot set gamemode via environment variables yet'' \<or>
        (\<exists>h\<in>set gs. \<exists>v k err. e = Printf_warning h v k err)"
  proof (cases p1)
    case (Some p)
    with b Cons.prems show ?thesis by simp
  next
    case None
    with b Cons.prems have "e \<in> set (stdout (fst (fields_loop w gs s1)))" by simp
    from Cons.IH [OF this] show ?thesis .
  qed
  moreover have "e \<in> set (stdout s1) \<Longrightarrow> e \<in> set (stdout s) \<or>
        e = Println ''cannot set gamemode via environment variables yet'' \<or>
        (\<exists>v k err. e = Printf_warning g v k err)"
    using field_body_events [of e w g s] b by simp
  ultimately show ?case by auto
qed

text \<open>
  With \<^verbatim>\<open>SAMP_PLUGINS\<close> set, the call ends at \<^verbatim>\<open>Plugins\<close> at the latest: what it leaves
  is what the loop over the six fields declared before \<^verbatim>\<open>Plugins\<close> leaves.
\<close>

lemma Plugins_set_stops:
  assumes "LookupEnv w ''SAMP_PLUGINS'' = Some v"
  shows "fst (fields_loop w Config_fields s) =
           fst (fields_loop w [priv_dir, Version, Endpoint, Echo, Gamemodes, Filterscripts] s)"
proof -
  let ?pre = "[priv_dir, Version, Endpoint, Echo, Gamemodes, Filterscripts]"
  obtain post where cf: "Config_fields = ?pre @ Plugins # post"
    by (simp add: Config_fields_def)
  obtain s1 p1 where l: "fields_loop w ?pre s = (s1, p1)" by (cases "fields_loop w ?pre s")
  from Plugins_set_panics [OF assms, of s1] obtain p where
    "field_body w Plugins s1 = (s1, Some p)" by blast
  with l show ?thesis unfolding cf fields_loop_append by (cases p1) simp_all
qed

text \<open>
  Where no panic can arise (a well-typed struct, \<^verbatim>\<open>SAMP_PLUGINS\<close> not set, and no
  parsable float for an absent \<^verbatim>\<open>StreamDistance\<close>) the call returns, and a
  \<^verbatim>\<open>*bool\<close> field whose variable holds a rejected string is \<^verbatim>\<open>false\<close> afterwards,
  with the warning printed.
\<close>

lemma rejected_bool_is_set_false:
  assumes "well_typed c" "LookupEnv w ''SAMP_PLUGINS'' = None"
      "\<And>v x. LookupEnv w ''SAMP_STREAM_DISTANCE'' = Some v \<Longrightarrow> ParseFloat w v = Inr x \<Longrightarrow>
         \<not> IsNil (c StreamDistance)"
      "field_Type fb = PtrBool" "env_name fb = Inr nb" "LookupEnv w nb = Some vb"
      "snd (ParseBool vb) = Some eb"
  shows "snd (LoadEnvironmentVariables w c) = None \<and>
         cfg (fst (LoadEnvironmentVariables w c)) fb = Bool_ptr (Some False) \<and>
         Printf_warning fb vb ''boolean'' eb \<in> set (stdout (fst (LoadEnvironmentVariables w c)))"
proof -
  have r: "snd (LoadEnvironmentVariables w c) = None"
    by (rule LoadEnvironmentVariables_returns [OF assms(1,2)]) (rule assms(3))
  have cs: "CanSet fb" using assms(4) by (simp add: CanSet_if_not_string)
  from LoadEnvironmentVariables_overrides [OF r cs assms(5,6)] assms(4)
    ParseBool_failure [OF assms(7)]
  have v: "cfg (fst (LoadEnvironmentVariables w c)) fb = Bool_ptr (Some False)" by simp
  let ?s0 = "\<lparr>cfg = c, stdout = []\<rparr>"
  obtain s' where l: "fields_loop w Config_fields ?s0 = (s', None)"
    using r by (cases "fields_loop w Config_fields ?s0")
      (simp add: LoadEnvironmentVariables_def)
  have "Printf_warning fb vb ''boolean'' eb \<in> set (stdout s')"
    by (rule fields_loop_prints [of w fb _ Config_fields ?s0, OF _ _ l])
       (use assms(4,7) all_fields in
         \<open>auto simp: field_body_eq [OF cs assms(5,6)] split: if_splits\<close>)
  with l r v show ?thesis by (simp add: LoadEnvironmentVariables_def)
qed

text \<open>
  \<^verbatim>\<open>announce\<close> is \<^verbatim>\<open>true\<close> in the file and \<^verbatim>\<open>SAMP_ANNOUNCE=yes\<close>: the call returns,
  \<^verbatim>\<open>announce\<close> is \<^verbatim>\<open>false\<close> and the warning has been printed.
\<close>

lemma rejected_bool_example:
  "snd (LoadEnvironmentVariables (example_world rejected_bool_env Map.empty)
          (zero_Config(Announce := Bool_ptr (Some True)))) = None \<and>
   cfg (fst (LoadEnvironmentVariables (example_world rejected_bool_env Map.empty)
          (zero_Config(Announce := Bool_ptr (Some True))))) Announce = Bool_ptr (Some False) \<and>
   Printf_warning Announce ''yes'' ''boolean'' ErrSyntax
     \<in> set (stdout (fst (LoadEnvironmentVariables (example_world rejected_bool_env Map.empty)
          (zero_Config(Announce := Bool_ptr (Some True))))))"
proof (rule rejected_bool_is_set_false [OF _ _ _ _ env_name_Announce])
  show "well_typed (zero_Config(Announce := Bool_ptr (Some True)))"
    by (simp add: well_typed_iff zero_Config_def)
  show "LookupEnv (example_world rejected_bool_env Map.empty) ''SAMP_PLUGINS'' = None"
    by (simp add: example_world_def rejected_bool_env_def)
  show "\<not> IsNil ((zero_Config(Announce := Bool_ptr (Some True))) StreamDistance)"
    if "LookupEnv (example_world rejected_bool_env Map.empty) ''SAMP_STREAM_DISTANCE'' = Some v"
    for v using that by (simp add: example_world_def rejected_bool_env_def)
  show "field_Type Announce = PtrBool" by simp
  show "LookupEnv (example_world rejected_bool_env Map.empty) ''SAMP_ANNOUNCE'' = Some ''yes''"
    by (simp add: example_world_def rejected_bool_env_def)
  show "snd (ParseBool ''yes'') = Some ErrSyntax" by (simp add: ParseBool_def)
qed

section \<open>The claims\<close>

text \<open>
  Claim C7. The overlay never turns a present field into an absent one: a field that
  is non-nil before \<^verbatim>\<open>LoadEnvironmentVariables\<close> is non-nil in the struct the call
  leaves (also when the call panics), and a field whose environment variable is not
  set keeps its value exactly.
\<close>

theorem LoadEnvironmentVariables_keeps_presence:
  "(\<not> IsNil (c f) \<longrightarrow> \<not> IsNil (cfg (fst (LoadEnvironmentVariables w c)) f)) \<and>
   (env_name f = Inr n \<longrightarrow> LookupEnv w n = None \<longrightarrow>
      cfg (fst (LoadEnvironmentVariables w c)) f = c f)"
proof (intro conjI impI)
  assume "\<not> IsNil (c f)"
  with fields_loop_touch [of w Config_fields "\<lparr>cfg = c, stdout = []\<rparr>" f]
  show "\<not> IsNil (cfg (fst (LoadEnvironmentVariables w c)) f)"
    by (auto simp: LoadEnvironmentVariables_def)
next
  assume "env_name f = Inr n" "LookupEnv w n = None"
  then show "cfg (fst (LoadEnvironmentVariables w c)) f = c f"
    using fields_loop_keeps [of f n w Config_fields "\<lparr>cfg = c, stdout = []\<rparr>"]
    by (simp add: LoadEnvironmentVariables_def)
qed

text \<open>A file gave port 7777 and \<^verbatim>\<open>SAMP_PORT\<close> is not set: the port is still 7777.\<close>

theorem LoadEnvironmentVariables_keeps_presence_witness:
  "\<not> IsNil (Int_ptr (Some 7777)) \<and>
   env_name Port = Inr ''SAMP_PORT'' \<and>
   LookupEnv (example_world Map.empty Map.empty) ''SAMP_PORT'' = None \<and>
   \<not> IsNil (cfg (fst (LoadEnvironmentVariables (example_world Map.empty Map.empty)
       (zero_Config(Port := Int_ptr (Some 7777))))) Port) \<and>
   cfg (fst (LoadEnvironmentVariables (example_world Map.empty Map.empty)
       (zero_Config(Port := Int_ptr (Some 7777))))) Port = Int_ptr (Some 7777)"
  using LoadEnvironmentVariables_keeps_presence
    [of "zero_Config(Port := Int_ptr (Some 7777))" Port
        "example_world Map.empty Map.empty" "''SAMP_PORT''"]
  by (simp add: env_name_Port example_world_def)


text \<open>
  Claim C9. \<^verbatim>\<open>LoadEnvironmentVariables\<close> is idempotent: applied to the struct that a
  first call leaves, with the same environment, a second call leaves the same struct,
  prints the same lines and ends the same way (returns, or panics at the same place).
\<close>

theorem LoadEnvironmentVariables_idempotent:
  "LoadEnvironmentVariables w (cfg (fst (LoadEnvironmentVariables w c))) =
   LoadEnvironmentVariables w c"
proof -
  obtain s' p where r: "fields_loop w Config_fields \<lparr>cfg = c, stdout = []\<rparr> = (s', p)"
    by (cases "fields_loop w Config_fields \<lparr>cfg = c, stdout = []\<rparr>")
  have "\<forall>g\<in>set Config_fields. cfg \<lparr>cfg = cfg s', stdout = []\<rparr> g = cfg s' g" by simp
  from fields_loop_again [OF distinct_fields r this] obtain es where
    es: "stdout s' = [] @ es" "fields_loop w Config_fields \<lparr>cfg = cfg s', stdout = []\<rparr> =
       (\<lparr>cfg = cfg s', stdout = [] @ es\<rparr>, p)" by auto
  then have "\<lparr>cfg = cfg s', stdout = [] @ es\<rparr> = s'" by (cases s') simp
  with es r show ?thesis by (simp add: LoadEnvironmentVariables_def)
qed

theorem LoadEnvironmentVariables_idempotent_witness:
  "LoadEnvironmentVariables (example_world [''SAMP_PORT'' \<mapsto> ''9999''] Map.empty)
     (cfg (fst (LoadEnvironmentVariables (example_world [''SAMP_PORT'' \<mapsto> ''9999''] Map.empty)
        zero_Config))) =
   LoadEnvironmentVariables (example_world [''SAMP_PORT'' \<mapsto> ''9999''] Map.empty) zero_Config"
  using LoadEnvironmentVariables_idempotent
    [of "example_world [''SAMP_PORT'' \<mapsto> ''9999''] Map.empty" zero_Config] .

text \<open>
  Claim C1 says that every scalar optional field whose variable holds a parsable value
  holds that value after the overlay. For the \<^verbatim>\<open>*float32\<close> field the code does not
  do so when the field is absent: \<^verbatim>\<open>reflect.New\<close> is given the type of the parsed
  \<^verbatim>\<open>float64\<close>, so \<^verbatim>\<open>fieldval.Set\<close> is handed a \<^verbatim>\<open>*float64\<close> for a \<^verbatim>\<open>*float32\<close>
  field and panics. The call never returns normally, the field stays nil, and the
  fields after it are not visited. (For calls that return,
  \<open>LoadEnvironmentVariables_overrides\<close> gives the values the claim states.)
\<close>

theorem absent_float_field_override_panics:
  "c StreamDistance = Float32_ptr None \<longrightarrow>
   LookupEnv w ''SAMP_STREAM_DISTANCE'' = Some v \<longrightarrow> ParseFloat w v = Inr x \<longrightarrow>
     snd (LoadEnvironmentVariables w c) \<noteq> None \<and>
     cfg (fst (LoadEnvironmentVariables w c)) StreamDistance = Float32_ptr None \<and>
     (well_typed c \<longrightarrow> LookupEnv w ''SAMP_PLUGINS'' = None \<longrightarrow>
        snd (LoadEnvironmentVariables w c) = Some (Set_not_assignable PtrFloat64 PtrFloat32))"
proof (intro impI)
  assume a: "c StreamDistance = Float32_ptr None"
    "LookupEnv w ''SAMP_STREAM_DISTANCE'' = Some v" "ParseFloat w v = Inr x"
  let ?s0 = "\<lparr>cfg = c, stdout = []\<rparr>"
  have p: "snd (fields_loop w Config_fields ?s0) \<noteq> None \<and>
           cfg (fst (fields_loop w Config_fields ?s0)) StreamDistance = Float32_ptr None"
    by (rule fields_loop_panics [where V = "Float32_ptr None"])
       (use a StreamDistance_nil_panics all_fields in auto)
  have "snd (fields_loop w Config_fields ?s0) = Some (Set_not_assignable PtrFloat64 PtrFloat32)"
    if "well_typed c" "LookupEnv w ''SAMP_PLUGINS'' = None"
  proof -
    from p obtain s' q where "fields_loop w Config_fields ?s0 = (s', Some q)"
      by (cases "fields_loop w Config_fields ?s0") auto
    with fields_loop_panic_cases [OF _ this] that show ?thesis by auto
  qed
  with p show "snd (LoadEnvironmentVariables w c) \<noteq> None \<and>
     cfg (fst (LoadEnvironmentVariables w c)) StreamDistance = Float32_ptr None \<and>
     (well_typed c \<longrightarrow> LookupEnv w ''SAMP_PLUGINS'' = None \<longrightarrow>
        snd (LoadEnvironmentVariables w c) = Some (Set_not_assignable PtrFloat64 PtrFloat32))"
    by (simp add: LoadEnvironmentVariables_def)
qed

text \<open>
  \<^verbatim>\<open>stream_distance\<close> absent from the file and \<^verbatim>\<open>SAMP_STREAM_DISTANCE=200.5\<close>: the call
  panics and the field is still nil.
\<close>

theorem absent_float_field_override_panics_witness:
  "zero_Config StreamDistance = Float32_ptr None \<and>
   LookupEnv (example_world [''SAMP_STREAM_DISTANCE'' \<mapsto> ''200.5''] Map.empty)
     ''SAMP_STREAM_DISTANCE'' = Some ''200.5'' \<and>
   ParseFloat (example_world [''SAMP_STREAM_DISTANCE'' \<mapsto> ''200.5''] Map.empty) ''200.5''
     = Inr 0x4069100000000000 \<and>
   well_typed zero_Config \<and>
   LookupEnv (example_world [''SAMP_STREAM_DISTANCE'' \<mapsto> ''200.5''] Map.empty)
     ''SAMP_PLUGINS'' = None \<and>
   snd (LoadEnvironmentVariables
          (example_world [''SAMP_STREAM_DISTANCE'' \<mapsto> ''200.5''] Map.empty) zero_Config)
     = Some (Set_not_assignable PtrFloat64 PtrFloat32) \<and>
   cfg (fst (LoadEnvironmentVariables
          (example_world [''SAMP_STREAM_DISTANCE'' \<mapsto> ''200.5''] Map.empty) zero_Config))
     StreamDistance = Float32_ptr None"
  using absent_float_field_override_panics
    [of zero_Config "example_world [''SAMP_STREAM_DISTANCE'' \<mapsto> ''200.5''] Map.empty"
        "''200.5''" "0x4069100000000000"]
  by (simp add: example_world_def zero_Config_def well_typed_zero_Config [unfolded zero_Config_def])


text \<open>
  Claim C2 says that a set variable of a sequence-typed field is a no-op with an
  informational message and never a panic. For \<^verbatim>\<open>Plugins\<close>, of type
  \<^verbatim>\<open>[]Plugin\<close>, the type string is \<^verbatim>\<open>[]runtime.Plugin\<close>, which is not the
  \<^verbatim>\<open>[]string\<close> of the switch: whenever \<^verbatim>\<open>SAMP_PLUGINS\<close> is set the call panics
  (on a well-typed struct with no float override, with \<^verbatim>\<open>unknown kind\<close>).
\<close>

theorem Plugins_variable_panics:
  "LookupEnv w ''SAMP_PLUGINS'' = Some v \<longrightarrow>
     snd (LoadEnvironmentVariables w c) \<noteq> None \<and>
     cfg (fst (LoadEnvironmentVariables w c)) Plugins = c Plugins \<and>
     (well_typed c \<longrightarrow> LookupEnv w ''SAMP_STREAM_DISTANCE'' = None \<longrightarrow>
        snd (LoadEnvironmentVariables w c) = Some (unknown_kind ''[]runtime.Plugin''))"
proof (intro impI)
  assume a: "LookupEnv w ''SAMP_PLUGINS'' = Some v"
  let ?s0 = "\<lparr>cfg = c, stdout = []\<rparr>"
  have p: "snd (fields_loop w Config_fields ?s0) \<noteq> None \<and>
           cfg (fst (fields_loop w Config_fields ?s0)) Plugins = c Plugins"
    by (rule fields_loop_panics [where V = "c Plugins"])
       (use a Plugins_set_panics all_fields in auto)
  have "snd (fields_loop w Config_fields ?s0) = Some (unknown_kind ''[]runtime.Plugin'')"
    if "well_typed c" "LookupEnv w ''SAMP_STREAM_DISTANCE'' = None"
  proof -
    from p obtain s' q where "fields_loop w Config_fields ?s0 = (s', Some q)"
      by (cases "fields_loop w Config_fields ?s0") auto
    with fields_loop_panic_cases [OF _ this] that show ?thesis by auto
  qed
  with p show "snd (LoadEnvironmentVariables w c) \<noteq> None \<and>
     cfg (fst (LoadEnvironmentVariables w c)) Plugins = c Plugins \<and>
     (well_typed c \<longrightarrow> LookupEnv w ''SAMP_STREAM_DISTANCE'' = None \<longrightarrow>
        snd (LoadEnvironmentVariables w c) = Some (unknown_kind ''[]runtime.Plugin''))"
    by (simp add: LoadEnvironmentVariables_def)
qed

theorem Plugins_variable_panics_witness:
  "LookupEnv (example_world [''SAMP_PLUGINS'' \<mapsto> ''streamer''] Map.empty) ''SAMP_PLUGINS''
     = Some ''streamer'' \<and>
   well_typed zero_Config \<and>
   LookupEnv (example_world [''SAMP_PLUGINS'' \<mapsto> ''streamer''] Map.empty)
     ''SAMP_STREAM_DISTANCE'' = None \<and>
   snd (LoadEnvironmentVariables
          (example_world [''SAMP_PLUGINS'' \<mapsto> ''streamer''] Map.empty) zero_Config)
     = Some (unknown_kind ''[]runtime.Plugin'') \<and>
   cfg (fst (LoadEnvironmentVariables
          (example_world [''SAMP_PLUGINS'' \<mapsto> ''streamer''] Map.empty) zero_Config)) Plugins
     = Plugin_slice []"
  using Plugins_variable_panics
    [of "example_world [''SAMP_PLUGINS'' \<mapsto> ''streamer''] Map.empty" "''streamer''" zero_Config]
  by (simp add: example_world_def zero_Config_def well_typed_zero_Config [unfolded zero_Config_def])

text \<open>
  Claim C3 says that a \<^verbatim>\<open>*bool\<close> field whose variable holds a string that
  \<^verbatim>\<open>strconv.ParseBool\<close> rejects ends up \<^verbatim>\<open>false\<close>, with a warning, and that a
  \<^verbatim>\<open>*int\<close> or \<^verbatim>\<open>*float32\<close> field whose variable is unparsable is left as it was.
  The second half holds in every call (\<open>parse_failure_on_return\<close>). The first half
  holds wherever no panic can arise (\<open>rejected_bool_is_set_false\<close>), but not when
  \<^verbatim>\<open>SAMP_PLUGINS\<close> is set: every \<^verbatim>\<open>*bool\<close> field is declared after \<^verbatim>\<open>Plugins\<close>, the
  panic there ends the call before any of them is visited, so the field keeps the
  value it had and no warning about it is printed.
\<close>

theorem Plugins_panic_skips_rejected_bool:
  "LookupEnv w ''SAMP_PLUGINS'' = Some v \<longrightarrow> field_Type fb = PtrBool \<longrightarrow>
     snd (LoadEnvironmentVariables w c) \<noteq> None \<and>
     cfg (fst (LoadEnvironmentVariables w c)) fb = c fb \<and>
     Printf_warning fb vb k eb \<notin> set (stdout (fst (LoadEnvironmentVariables w c)))"
proof (intro impI)
  assume a: "LookupEnv w ''SAMP_PLUGINS'' = Some v" and b: "field_Type fb = PtrBool"
  let ?s0 = "\<lparr>cfg = c, stdout = []\<rparr>"
  let ?pre = "[priv_dir, Version, Endpoint, Echo, Gamemodes, Filterscripts]"
  have p: "snd (fields_loop w Config_fields ?s0) \<noteq> None"
    using fields_loop_panics [where V = "c Plugins" and f = Plugins and w = w
        and gs = Config_fields and s = ?s0] a Plugins_set_panics all_fields
    by auto
  have st: "fst (fields_loop w Config_fields ?s0) = fst (fields_loop w ?pre ?s0)"
    by (rule Plugins_set_stops [OF a])
  have nb: "fb \<notin> set ?pre" using b by auto
  with fields_loop_touch [of w ?pre ?s0 fb]
  have c1: "cfg (fst (fields_loop w ?pre ?s0)) fb = c fb" by auto
  have c2: "Printf_warning fb vb k eb \<notin> set (stdout (fst (fields_loop w ?pre ?s0)))"
  proof
    assume "Printf_warning fb vb k eb \<in> set (stdout (fst (fields_loop w ?pre ?s0)))"
    from fields_loop_events [OF this] nb show False by auto
  qed
  from p st c1 c2
  show "snd (LoadEnvironmentVariables w c) \<noteq> None \<and>
     cfg (fst (LoadEnvironmentVariables w c)) fb = c fb \<and>
     Printf_warning fb vb k eb \<notin> set (stdout (fst (LoadEnvironmentVariables w c)))"
    by (simp add: LoadEnvironmentVariables_def)
qed

text \<open>
  \<^verbatim>\<open>announce\<close> is \<^verbatim>\<open>true\<close>, \<^verbatim>\<open>SAMP_PLUGINS=streamer\<close> and \<^verbatim>\<open>SAMP_ANNOUNCE=yes\<close>:
  the call panics, \<^verbatim>\<open>announce\<close> is still \<^verbatim>\<open>true\<close> and no warning was printed.
\<close>

theorem Plugins_panic_skips_rejected_bool_witness:
  "LookupEnv (example_world plugins_and_rejected_bool_env Map.empty) ''SAMP_PLUGINS''
     = Some ''streamer'' \<and>
   field_Type Announce = PtrBool \<and> env_name Announce = Inr ''SAMP_ANNOUNCE'' \<and>
   LookupEnv (example_world plugins_and_rejected_bool_env Map.empty) ''SAMP_ANNOUNCE''
     = Some ''yes'' \<and>
   snd (ParseBool ''yes'') = Some ErrSyntax \<and>
   snd (LoadEnvironmentVariables (example_world plugins_and_rejected_bool_env Map.empty)
          (zero_Config(Announce := Bool_ptr (Some True)))) \<noteq> None \<and>
   cfg (fst (LoadEnvironmentVariables (example_world plugins_and_rejected_bool_env Map.empty)
          (zero_Config(Announce := Bool_ptr (Some True))))) Announce = Bool_ptr (Some True) \<and>
   Printf_warning Announce ''yes'' ''boolean'' ErrSyntax
     \<notin> set (stdout (fst (LoadEnvironmentVariables
          (example_world plugins_and_rejected_bool_env Map.empty)
          (zero_Config(Announce := Bool_ptr (Some True))))))"
proof -
  let ?w = "example_world plugins_and_rejected_bool_env Map.empty"
  have l: "LookupEnv ?w ''SAMP_PLUGINS'' = Some ''streamer''"
    "LookupEnv ?w ''SAMP_ANNOUNCE'' = Some ''yes''"
    by (simp_all add: example_world_def plugins_and_rejected_bool_env_def)
  have pb: "snd (ParseBool ''yes'') = Some ErrSyntax" by (simp add: ParseBool_def)
  from Plugins_panic_skips_rejected_bool
    [where w = ?w and v = "''streamer''" and fb = Announce
       and c = "zero_Config(Announce := Bool_ptr (Some True))"
       and vb = "''yes''" and k = "''boolean''" and eb = ErrSyntax]
    l pb env_name_Announce
  show ?thesis by simp
qed

text \<open>
  Claim C4. When \<^verbatim>\<open>samp.json\<close> exists in the directory, \<^verbatim>\<open>ConfigFromDirectory\<close>
  returns what decoding that file gives, and nothing else of the world matters: two
  worlds that agree on \<^verbatim>\<open>samp.json\<close> (and on the JSON decoder) give the same result,
  whatever \<^verbatim>\<open>samp.yaml\<close> is or holds in either.
\<close>

theorem ConfigFromDirectory_json_precedence:
  "Exists w (Join w dir ''samp.json'') \<longrightarrow>
     (ReadFile w (Join w dir ''samp.json'') = Inr contents \<longrightarrow>
      json_Unmarshal w contents zero_Config = (c, None) \<longrightarrow>
        ConfigFromDirectory w dir = (c, None)) \<and>
     (Join w' = Join w \<longrightarrow> Exists w' (Join w dir ''samp.json'') \<longrightarrow>
      ReadFile w' (Join w dir ''samp.json'') = ReadFile w (Join w dir ''samp.json'') \<longrightarrow>
      json_Unmarshal w' = json_Unmarshal w \<longrightarrow>
        ConfigFromDirectory w' dir = ConfigFromDirectory w dir)"
proof (intro impI conjI)
  assume "Exists w (Join w dir ''samp.json'')"
    "ReadFile w (Join w dir ''samp.json'') = Inr contents"
    "json_Unmarshal w contents zero_Config = (c, None)"
  then show "ConfigFromDirectory w dir = (c, None)"
    by (simp add: ConfigFromDirectory_def ConfigFromJSON_def)
next
  assume h: "Exists w (Join w dir ''samp.json'')" "Join w' = Join w"
    "Exists w' (Join w dir ''samp.json'')"
    "ReadFile w' (Join w dir ''samp.json'') = ReadFile w (Join w dir ''samp.json'')"
    "json_Unmarshal w' = json_Unmarshal w"
  have "ConfigFromJSON w' (Join w dir ''samp.json'') = ConfigFromJSON w (Join w dir ''samp.json'')"
    by (simp only: ConfigFromJSON_def h(4,5))
  with h(1,2,3) show "ConfigFromDirectory w' dir = ConfigFromDirectory w dir"
    by (simp add: ConfigFromDirectory_def)
qed

text \<open>
  A directory with \<^verbatim>\<open>samp.json\<close> (port 7777), with and without a \<^verbatim>\<open>samp.yaml\<close> that
  says port 8888: port 7777 both times.
\<close>

theorem ConfigFromDirectory_json_precedence_witness:
  "Exists (example_world Map.empty json_only)
     (Join (example_world Map.empty json_only) ''/srv'' ''samp.json'') \<and>
   ReadFile (example_world Map.empty json_only)
     (Join (example_world Map.empty json_only) ''/srv'' ''samp.json'') = Inr example_json \<and>
   json_Unmarshal (example_world Map.empty json_only) example_json zero_Config
     = (zero_Config(Port := Int_ptr (Some 7777)), None) \<and>
   Join (example_world Map.empty json_and_yaml) = Join (example_world Map.empty json_only) \<and>
   Exists (example_world Map.empty json_and_yaml)
     (Join (example_world Map.empty json_only) ''/srv'' ''samp.json'') \<and>
   Exists (example_world Map.empty json_and_yaml) ''/srv/samp.yaml'' \<and>
   ReadFile (example_world Map.empty json_and_yaml)
     (Join (example_world Map.empty json_only) ''/srv'' ''samp.json'')
     = ReadFile (example_world Map.empty json_only)
         (Join (example_world Map.empty json_only) ''/srv'' ''samp.json'') \<and>
   json_Unmarshal (example_world Map.empty json_and_yaml)
     = json_Unmarshal (example_world Map.empty json_only) \<and>
   ConfigFromDirectory (example_world Map.empty json_only) ''/srv''
     = (zero_Config(Port := Int_ptr (Some 7777)), None) \<and>
   ConfigFromDirectory (example_world Map.empty json_and_yaml) ''/srv''
     = ConfigFromDirectory (example_world Map.empty json_only) ''/srv''"
proof -
  let ?w = "example_world Map.empty json_only"
  let ?w' = "example_world Map.empty json_and_yaml"
  have j: "Join ?w ''/srv'' ''samp.json'' = ''/srv/samp.json''" "Join ?w' = Join ?w"
    by (simp_all add: example_world_def)
  have e: "Exists ?w ''/srv/samp.json''" "Exists ?w' ''/srv/samp.json''"
    "Exists ?w' ''/srv/samp.yaml''"
    by (simp_all add: example_world_def json_only_def json_and_yaml_def)
  have r: "ReadFile ?w ''/srv/samp.json'' = Inr example_json"
    "ReadFile ?w' ''/srv/samp.json'' = Inr example_json"
    by (simp_all add: example_world_def json_only_def json_and_yaml_def)
  have u: "json_Unmarshal ?w example_json zero_Config
      = (zero_Config(Port := Int_ptr (Some 7777)), None)"
    "json_Unmarshal ?w' = json_Unmarshal ?w"
    by (simp_all add: example_world_def)
  from ConfigFromDirectory_json_precedence
    [of ?w "''/srv''" example_json "zero_Config(Port := Int_ptr (Some 7777))" ?w']
    j e r u
  show ?thesis by simp
qed

text \<open>
  Claim C10. Once \<^verbatim>\<open>samp.json\<close> exists, a failure to read it or to decode it is the
  error \<^verbatim>\<open>ConfigFromDirectory\<close> returns; \<^verbatim>\<open>samp.yaml\<close> is not consulted.
\<close>

theorem ConfigFromDirectory_no_fallback:
  "Exists w (Join w dir ''samp.json'') \<longrightarrow>
     (ReadFile w (Join w dir ''samp.json'') = Inl err \<longrightarrow>
        snd (ConfigFromDirectory w dir) = Some (Wrap err ''failed to read samp.json'')) \<and>
     (ReadFile w (Join w dir ''samp.json'') = Inr contents \<longrightarrow>
      snd (json_Unmarshal w contents zero_Config) = Some err \<longrightarrow>
        snd (ConfigFromDirectory w dir) = Some (Wrap err ''failed to unmarshal samp.json''))"
  by (auto simp: ConfigFromDirectory_def ConfigFromJSON_def split: prod.splits)

text \<open>
  A truncated \<^verbatim>\<open>samp.json\<close> beside a \<^verbatim>\<open>samp.yaml\<close> that would load: the JSON error
  is returned.
\<close>

theorem ConfigFromDirectory_no_fallback_witness:
  "Exists (example_world Map.empty broken_json_and_yaml)
     (Join (example_world Map.empty broken_json_and_yaml) ''/srv'' ''samp.json'') \<and>
   ReadFile (example_world Map.empty broken_json_and_yaml)
     (Join (example_world Map.empty broken_json_and_yaml) ''/srv'' ''samp.json'') = Inr ''{'' \<and>
   snd (json_Unmarshal (example_world Map.empty broken_json_and_yaml) ''{'' zero_Config)
     = Some ''unexpected end of JSON input'' \<and>
   ConfigFromYAML (example_world Map.empty broken_json_and_yaml) ''/srv/samp.yaml''
     = (zero_Config(Port := Int_ptr (Some 8888)), None) \<and>
   snd (ConfigFromDirectory (example_world Map.empty broken_json_and_yaml) ''/srv'')
     = Some ''failed to unmarshal samp.json: unexpected end of JSON input''"
proof -
  let ?w = "example_world Map.empty broken_json_and_yaml"
  have j: "Join ?w ''/srv'' ''samp.json'' = ''/srv/samp.json''"
    by (simp add: example_world_def)
  have e: "Exists ?w ''/srv/samp.json''"
    by (simp add: example_world_def broken_json_and_yaml_def)
  have r: "ReadFile ?w ''/srv/samp.json'' = Inr ''{''"
    "ReadFile ?w ''/srv/samp.yaml'' = Inr ''port: 8888''"
    by (simp_all add: example_world_def broken_json_and_yaml_def)
  have u: "snd (json_Unmarshal ?w ''{'' zero_Config) = Some ''unexpected end of JSON input''"
    by (simp add: example_world_def example_json_def)
  have y: "yaml_Unmarshal ?w ''port: 8888'' zero_Config
      = (zero_Config(Port := Int_ptr (Some 8888)), None)"
    by (simp add: example_world_def)
  from ConfigFromDirectory_no_fallback
    [where w = ?w and dir = "''/srv''" and contents = "''{''"
       and err = "''unexpected end of JSON input''"]
    j e r u y
  show ?thesis by (simp add: Wrap_def ConfigFromYAML_def)
qed

text \<open>
  Claim C5 says that the error of a failed load keeps the underlying message and names
  the file that failed, the YAML file for a YAML failure. \<^verbatim>\<open>ConfigFromYAML\<close> keeps the
  underlying message, but both of its wrappers say \<^verbatim>\<open>samp.json\<close>: its messages were
  taken over from \<^verbatim>\<open>ConfigFromJSON\<close> unchanged.
\<close>

theorem ConfigFromYAML_errors_name_json:
  "(ReadFile w file = Inl err \<longrightarrow>
      snd (ConfigFromYAML w file) = Some (''failed to read samp.json: '' @ err)) \<and>
   (ReadFile w file = Inr contents \<longrightarrow>
    snd (yaml_Unmarshal w contents zero_Config) = Some err \<longrightarrow>
      snd (ConfigFromYAML w file) = Some (''failed to unmarshal samp.json: '' @ err))"
  by (auto simp: ConfigFromYAML_def Wrap_def split: prod.splits)

text \<open>
  A directory with only a malformed \<^verbatim>\<open>samp.yaml\<close>: the error speaks of
  \<^verbatim>\<open>samp.json\<close> and nowhere of \<^verbatim>\<open>samp.yaml\<close>.
\<close>

theorem ConfigFromYAML_errors_name_json_witness:
  "ReadFile (example_world Map.empty broken_yaml_only) ''/srv/samp.yaml'' = Inr ''port: ['' \<and>
   snd (yaml_Unmarshal (example_world Map.empty broken_yaml_only) ''port: ['' zero_Config)
     = Some ''yaml: did not find expected key'' \<and>
   snd (ConfigFromYAML (example_world Map.empty broken_yaml_only) ''/srv/samp.yaml'')
     = Some ''failed to unmarshal samp.json: yaml: did not find expected key'' \<and>
   snd (ConfigFromDirectory (example_world Map.empty broken_yaml_only) ''/srv'')
     = Some ''failed to unmarshal samp.json: yaml: did not find expected key'' \<and>
   \<not> Contains ''failed to unmarshal samp.json: yaml: did not find expected key'' ''samp.yaml''"
proof -
  let ?w = "example_world Map.empty broken_yaml_only"
  have r: "ReadFile ?w ''/srv/samp.yaml'' = Inr ''port: [''"
    by (simp add: example_world_def broken_yaml_only_def)
  have u: "snd (yaml_Unmarshal ?w ''port: ['' zero_Config) = Some ''yaml: did not find expected key''"
    by (simp add: example_world_def)
  have d: "ConfigFromDirectory ?w ''/srv'' = ConfigFromYAML ?w ''/srv/samp.yaml''"
    by (simp add: ConfigFromDirectory_def Let_def example_world_def broken_yaml_only_def)
  have n: "\<not> Contains ''failed to unmarshal samp.json: yaml: did not find expected key'' ''samp.yaml''"
    by simp
  from ConfigFromYAML_errors_name_json
    [of ?w "''/srv/samp.yaml''" "''yaml: did not find expected key''" "''port: [''"] r u d n
  show ?thesis by simp
qed

text \<open>
  Claim C6 says that the discovery error names the directory searched. It does not:
  for the directory \<^verbatim>\<open>/srv/samp\<close> the message is the fixed text, in which the
  directory does not occur.
\<close>

theorem discovery_error_omits_directory:
  "snd (ConfigFromDirectory (example_world Map.empty Map.empty) ''/srv/samp'')
     = Some ''directory does not contain a samp.json or samp.yaml file'' \<and>
   \<not> Contains ''directory does not contain a samp.json or samp.yaml file'' ''/srv/samp''"
  by (simp add: ConfigFromDirectory_def Let_def example_world_def)

text \<open>
  Claim C6, amended. For every directory that holds neither \<^verbatim>\<open>samp.json\<close> nor
  \<^verbatim>\<open>samp.yaml\<close>, \<^verbatim>\<open>ConfigFromDirectory\<close> fails with the error whose message is the
  fixed text \<^verbatim>\<open>directory does not contain a samp.json or samp.yaml file\<close>, the same
  for every directory.
\<close>

theorem ConfigFromDirectory_no_file:
  "\<not> Exists w (Join w dir ''samp.json'') \<longrightarrow> \<not> Exists w (Join w dir ''samp.yaml'') \<longrightarrow>
     ConfigFromDirectory w dir =
       (zero_Config, Some ''directory does not contain a samp.json or samp.yaml file'')"
  by (simp add: ConfigFromDirectory_def Let_def)

theorem ConfigFromDirectory_no_file_witness:
  "\<not> Exists (example_world Map.empty Map.empty)
       (Join (example_world Map.empty Map.empty) ''/srv/samp'' ''samp.json'') \<and>
   \<not> Exists (example_world Map.empty Map.empty)
       (Join (example_world Map.empty Map.empty) ''/srv/samp'' ''samp.yaml'') \<and>
   ConfigFromDirectory (example_world Map.empty Map.empty) ''/srv/samp'' =
     (zero_Config, Some ''directory does not contain a samp.json or samp.yaml file'')"
  using ConfigFromDirectory_no_file [of "example_world Map.empty Map.empty" "''/srv/samp''"]
  by (simp add: example_world_def)

text \<open>
  Claim C8 says that neither \<^verbatim>\<open>dir\<close> nor \<^verbatim>\<open>Echo\<close> can be changed by an
  environment variable or occurs in the file format. \<^verbatim>\<open>Echo\<close> is an exported field
  with the tag \<^verbatim>\<open>json:"echo,omitempty"\<close>: \<^verbatim>\<open>SAMP_ECHO\<close> sets it, and its key in
  the file format is \<^verbatim>\<open>echo\<close>.
\<close>

theorem Echo_is_overlaid:
  "zero_Config Echo = String_ptr None \<and>
   cfg (fst (LoadEnvironmentVariables (example_world [''SAMP_ECHO'' \<mapsto> ''hello''] Map.empty)
          zero_Config)) Echo = String_ptr (Some ''hello'') \<and>
   json_key Echo = Some ''echo''"
proof -
  let ?w = "example_world [''SAMP_ECHO'' \<mapsto> ''hello''] Map.empty"
  have l: "LookupEnv ?w ''SAMP_ECHO'' = Some ''hello''" "LookupEnv ?w ''SAMP_PLUGINS'' = None"
    "LookupEnv ?w ''SAMP_STREAM_DISTANCE'' = None"
    by (simp_all add: example_world_def)
  have r: "snd (LoadEnvironmentVariables ?w zero_Config) = None"
    by (rule LoadEnvironmentVariables_returns [OF well_typed_zero_Config l(2)])
       (simp add: l(3))
  have c: "CanSet Echo" by (simp add: CanSet_def)
  from LoadEnvironmentVariables_overrides [OF r c env_name_Echo l(1)] json_key_Echo
  show ?thesis by (simp add: zero_Config_def)
qed

text \<open>
  Claim C8, amended. The unexported field \<^verbatim>\<open>dir\<close> is skipped by the overlay (no
  environment makes the call change it) and has no key in the file format. \<^verbatim>\<open>Echo\<close>
  is an ordinary optional string: settable, overlaid from \<^verbatim>\<open>SAMP_ECHO\<close>, with the
  key \<^verbatim>\<open>echo\<close> in the file format.
\<close>

theorem bookkeeping_fields:
  "cfg (fst (LoadEnvironmentVariables w c)) priv_dir = c priv_dir \<and>
   \<not> CanSet priv_dir \<and> json_key priv_dir = None \<and>
   CanSet Echo \<and> env_name Echo = Inr ''SAMP_ECHO'' \<and> json_key Echo = Some ''echo''"
proof -
  have "cfg (fst (field_body w priv_dir s)) priv_dir = cfg s priv_dir" for s
    by (simp add: field_body_priv_dir)
  from fields_loop_frame [of w priv_dir Config_fields "\<lparr>cfg = c, stdout = []\<rparr>", OF this]
  show ?thesis
    by (simp add: LoadEnvironmentVariables_def json_key_priv_dir json_key_Echo env_name_Echo
        CanSet_def)
qed

text \<open>
  Even a variable named \<^verbatim>\<open>SAMP_\<close>, the name derived from the empty tag of
  \<^verbatim>\<open>dir\<close>, leaves \<^verbatim>\<open>dir\<close> alone.
\<close>

theorem bookkeeping_fields_witness:
  "cfg (fst (LoadEnvironmentVariables (example_world [''SAMP_'' \<mapsto> ''/tmp''] Map.empty)
          (zero_Config(priv_dir := String_ptr (Some ''/srv''))))) priv_dir
     = String_ptr (Some ''/srv'') \<and>
   env_name priv_dir = Inr ''SAMP_'' \<and> json_key priv_dir = None \<and>
   env_name Echo = Inr ''SAMP_ECHO'' \<and> json_key Echo = Some ''echo''"
  using bookkeeping_fields [of "example_world [''SAMP_'' \<mapsto> ''/tmp''] Map.empty"
      "zero_Config(priv_dir := String_ptr (Some ''/srv''))"]
  by (simp add: env_name_def ToUpper_def)

end
